theory Spec2Isabelle
  imports Complex_Main "HOL-Library.AList"
begin

section \<open>Debate arena agents: data model\<close>

text \<open>
  A shallow embedding of \<^verbatim>\<open>src/main.py\<close>: the shared \<^verbatim>\<open>DebateState\<close>, the moderator
  (\<^verbatim>\<open>start_round\<close>, \<^verbatim>\<open>request_prep_time\<close>, \<^verbatim>\<open>initialize_debate\<close>), the judge
  (\<^verbatim>\<open>evaluate_round\<close>, \<^verbatim>\<open>score_round\<close>, \<^verbatim>\<open>finalize_scores\<close>) and the debaters'
  \<^verbatim>\<open>receive_transcript\<close>.

  Conventions of the model.
  \<^item> Python \<^verbatim>\<open>float\<close> values (seconds, averages) are real numbers: no rounding error, no
    NaN, no infinities. Python \<^verbatim>\<open>int\<close> is \<open>int\<close>; \<^verbatim>\<open>str\<close> is \<open>string\<close>, one
    \<open>char\<close> per character.
  \<^item> An exception that escapes a method is a value of \<open>py_error\<close>. A method returns the
    pair of the escaped exception, if any, and the world as the method left it.
  \<^item> Everything the agents touch outside \<^verbatim>\<open>DebateState\<close> (the judge's score history,
    the data channel of the room, the files written, the room's deletion) is a field of
    the record \<open>world\<close>.
  \<^item> The wall clock is an input: the list of the successive readings of
    \<^verbatim>\<open>asyncio.get_event_loop().time()\<close>. A countdown that is still running when the
    readings end has no result (\<open>None\<close>).
  \<^item> The evaluation backend is an input: a function from the prompt and the attempt
    number to what \<^verbatim>\<open>self.llm.generate\<close> and \<^verbatim>\<open>json.loads\<close> produce.
  \<^item> Each method runs atomically; \<^verbatim>\<open>asyncio.sleep\<close> only lets time pass.
\<close>

datatype py_error = IndexError | KeyError | TypeError

datatype speakers = Single string | Crossfire "string list"

type_synonym round_desc = "string \<times> int \<times> speakers"

text \<open>A value produced by \<^verbatim>\<open>json.loads\<close>. Numbers are integers here: the worlds of
  this model hold integer scores, as \<^verbatim>\<open>DebateState\<close> declares them. The parser also
  returns floats (a number with a fraction or an exponent, and \<^verbatim>\<open>NaN\<close>,
  \<^verbatim>\<open>Infinity\<close>, \<^verbatim>\<open>-Infinity\<close>), which the judge stores as they come out of its
  clamp: what the clamp does on every number, floats included, is embedded on its own
  as \<open>clamp_number\<close> below.\<close>

datatype jvalue =
    JNull
  | JBool bool
  | JInt int
  | JStr string
  | JArr "jvalue list"
  | JObj "(string \<times> jvalue) list"

text \<open>One attempt of the evaluation backend: \<^verbatim>\<open>self.llm.generate\<close> raises, or its
  response has no text, or \<^verbatim>\<open>json.loads\<close> raises on the text, or it parses.\<close>

datatype response = Raises | NoText | BadJson | Parsed jvalue

type_synonym backend = "string \<Rightarrow> nat \<Rightarrow> response"

record DebateState =
  room_id :: string
  mode :: string
  round_index :: int
  time_remaining :: real
  roles :: "string \<rightharpoonup> string"
  topic :: string
  scores :: "string \<rightharpoonup> int list"
  prep_time :: "string \<rightharpoonup> real"
  transcripts :: "(string \<times> (string \<times> string list) list) list"
  custom_rounds :: "round_desc list option"

text \<open>An entry of \<^verbatim>\<open>JudgeAgent.score_history\<close>.\<close>

record score_record =
  sr_round :: string
  sr_T1_score :: int
  sr_T2_score :: int
  sr_explanation :: jvalue

text \<open>The dictionary \<^verbatim>\<open>feedback\<close> of \<^verbatim>\<open>finalize_scores\<close>.\<close>

record feedback =
  fb_winner :: string
  fb_T1_avg_score :: real
  fb_T2_avg_score :: real
  fb_T1_strengths :: string
  fb_T1_improvements :: string
  fb_T2_strengths :: string
  fb_T2_improvements :: string
  fb_score_history :: "score_record list"

text \<open>The messages of the data channel, by their \<^verbatim>\<open>type\<close> field.\<close>

datatype message =
    Announcement string
  | StateMsg string speakers real
  | SetSpeaking bool
  | ScoresMsg string int int jvalue
  | ScoreRoundMsg
  | ContinueDebate
  | FinalizeScores
  | FinalResults string real real feedback

text \<open>What a file holds: the objects dumped into it, in order.\<close>

datatype file_record = TranscriptRec string string | ResultsRec feedback

record world =
  state :: DebateState
  score_history :: "score_record list"
  sent :: "(message \<times> string option) list"
  files :: "string \<rightharpoonup> file_record list"
  room_deleted :: bool

definition ROUNDS :: "round_desc list" where
  "ROUNDS =
    [(''constructive_a'', 4 * 60, Single ''A''),
     (''constructive_c'', 4 * 60, Single ''C''),
     (''crossfire_ac'', 3 * 60, Crossfire [''A'', ''C'']),
     (''rebuttal_b'', 4 * 60, Single ''B''),
     (''rebuttal_d'', 4 * 60, Single ''D''),
     (''crossfire_bd'', 3 * 60, Crossfire [''B'', ''D'']),
     (''summary_a'', 3 * 60, Single ''A''),
     (''summary_c'', 3 * 60, Single ''C''),
     (''grand_crossfire'', 3 * 60, Crossfire [''A'', ''B'', ''C'', ''D'']),
     (''final_focus_b'', 2 * 60, Single ''B''),
     (''final_focus_d'', 2 * 60, Single ''D'')]"

definition DEBATE_TOPICS :: "string list" where
  "DEBATE_TOPICS =
    [''Should social media platforms regulate misinformation?'',
     ''Is universal basic income a viable economic policy?'',
     ''Should space exploration be prioritized over climate change solutions?'']"

subsection \<open>Python primitives\<close>

text \<open>\<^verbatim>\<open>xs[i]\<close>: a negative index counts from the end, anything else out of range
  raises \<^verbatim>\<open>IndexError\<close>.\<close>

definition py_index :: "'a list \<Rightarrow> int \<Rightarrow> py_error + 'a" where
  "py_index xs i =
     (if 0 \<le> i \<and> i < int (length xs) then Inr (xs ! nat i)
      else if i < 0 \<and> - int (length xs) \<le> i then Inr (xs ! nat (int (length xs) + i))
      else Inl IndexError)"

text \<open>\<^verbatim>\<open>int(x)\<close> of a float truncates towards zero.\<close>

definition py_int :: "real \<Rightarrow> int" where
  "py_int x = (if 0 \<le> x then \<lfloor>x\<rfloor> else \<lceil>x\<rceil>)"

text \<open>Rounding to the nearest integer, a tie going to the even neighbour, as
  \<^verbatim>\<open>round\<close> and the \<^verbatim>\<open>.1f\<close> format do on a value that is exact. Python rounds
  the double, not the real number: a decimal tie that no double represents (0.35 for
  one digit, 25.075 for two) goes in Python to the side on which its double lies, and
  here to the even neighbour. Only the last digit of a formatted or rounded value can
  differ.\<close>

definition round_half_even :: "real \<Rightarrow> int" where
  "round_half_even x =
     (let f = \<lfloor>x\<rfloor>; d = x - of_int f
      in if d < 1 / 2 then f else if 1 / 2 < d then f + 1 else if even f then f else f + 1)"

text \<open>\<^verbatim>\<open>round(x, 2)\<close>, on the exact value.\<close>

definition py_round2 :: "real \<Rightarrow> real" where
  "py_round2 x = of_int (round_half_even (x * 100)) / 100"

definition digit_char :: "nat \<Rightarrow> char" where
  "digit_char d = ''0123456789'' ! (d mod 10)"

fun show_nat :: "nat \<Rightarrow> string" where
  "show_nat n = (if n < 10 then [digit_char n] else show_nat (n div 10) @ [digit_char n])"

declare show_nat.simps [simp del]

text \<open>The format \<^verbatim>\<open>{x:.1f}\<close>: one digit after the point, on the exact value.\<close>

definition fmt_1f :: "real \<Rightarrow> string" where
  "fmt_1f x =
     (let t = nat (round_half_even (\<bar>x\<bar> * 10))
      in (if x < 0 then ''-'' else '''') @ show_nat (t div 10) @ ''.'' @ [digit_char t])"

definition upper_letters :: string where
  "upper_letters = ''ABCDEFGHIJKLMNOPQRSTUVWXYZ''"

definition lower_letters :: string where
  "lower_letters = ''abcdefghijklmnopqrstuvwxyz''"

text \<open>\<^verbatim>\<open>str.lower\<close>, \<^verbatim>\<open>str.upper\<close> and \<^verbatim>\<open>str.title\<close> on ASCII letters; every other
  character is left as it is.\<close>

definition lower_char :: "char \<Rightarrow> char" where
  "lower_char c = (case map_of (zip upper_letters lower_letters) c of None \<Rightarrow> c | Some l \<Rightarrow> l)"

definition upper_char :: "char \<Rightarrow> char" where
  "upper_char c = (case map_of (zip lower_letters upper_letters) c of None \<Rightarrow> c | Some u \<Rightarrow> u)"

definition is_letter :: "char \<Rightarrow> bool" where
  "is_letter c = (c \<in> set upper_letters \<or> c \<in> set lower_letters)"

definition lower :: "string \<Rightarrow> string" where
  "lower s = map lower_char s"

fun title_from :: "bool \<Rightarrow> string \<Rightarrow> string" where
  "title_from prev [] = []"
| "title_from prev (c # cs) =
     (if is_letter c then (if prev then lower_char c else upper_char c) # title_from True cs
      else c # title_from False cs)"

definition title :: "string \<Rightarrow> string" where
  "title s = title_from False s"

text \<open>\<^verbatim>\<open>s.replace('_', ' ')\<close>.\<close>

definition replace_underscores :: "string \<Rightarrow> string" where
  "replace_underscores s = map (\<lambda>c. if c = CHR ''_'' then CHR '' '' else c) s"

text \<open>\<^verbatim>\<open>sep.join(xs)\<close>.\<close>

fun join :: "string \<Rightarrow> string list \<Rightarrow> string" where
  "join sep [] = []"
| "join sep [x] = x"
| "join sep (x # y # ys) = x @ sep @ join sep (y # ys)"

subsection \<open>The data channel\<close>

text \<open>\<^verbatim>\<open>session.room.send_data(json.dumps(m).encode(), to=target)\<close>; the target
  \<open>None\<close> is a broadcast.\<close>

definition send :: "message \<Rightarrow> string option \<Rightarrow> world \<Rightarrow> world" where
  "send m target w = w\<lparr>sent := sent w @ [(m, target)]\<rparr>"

definition announce :: "string \<Rightarrow> world \<Rightarrow> world" where
  "announce msg w = send (Announcement msg) None w"

section \<open>The moderator\<close>

text \<open>\<^verbatim>\<open>self.debate_state.custom_rounds or ROUNDS\<close>: an absent or empty custom
  sequence gives the default one.\<close>

definition active_rounds :: "DebateState \<Rightarrow> round_desc list" where
  "active_rounds st =
     (case custom_rounds st of None \<Rightarrow> ROUNDS | Some rs \<Rightarrow> if rs = [] then ROUNDS else rs)"

text \<open>The debaters a round names: \<^verbatim>\<open>speakers if is_crossfire else [speakers]\<close>.\<close>

fun participants :: "speakers \<Rightarrow> string list" where
  "participants (Single d) = [d]"
| "participants (Crossfire ds) = ds"

text \<open>The test
  \<^verbatim>\<open>debater_id in ["C", "D"] or (mode == "single" and debater_id == "B")\<close>.\<close>

definition eligible :: "string \<Rightarrow> string \<Rightarrow> bool" where
  "eligible md debater_id =
     (debater_id \<in> set [''C'', ''D''] \<or> (md = ''single'' \<and> debater_id = ''B''))"

definition debater_target :: "string \<Rightarrow> string" where
  "debater_target debater_id = ''debater_'' @ lower debater_id"

text \<open>One pass of a loop
  \<^verbatim>\<open>for debater_id in ...: if <eligible>: send_data(set_speaking, to=...)\<close>.\<close>

fun set_speaking_loop :: "bool \<Rightarrow> string list \<Rightarrow> world \<Rightarrow> world" where
  "set_speaking_loop can_speak [] w = w"
| "set_speaking_loop can_speak (debater_id # rest) w =
     set_speaking_loop can_speak rest
       (if eligible (mode (state w)) debater_id
        then send (SetSpeaking can_speak) (Some (debater_target debater_id)) w
        else w)"

text \<open>The countdown of \<^verbatim>\<open>start_round\<close>. Each pass reads the clock for the loop test
  and, after the sleep, once more for \<^verbatim>\<open>time_remaining\<close>; it leaves the loop by the
  test or by the \<^verbatim>\<open>break\<close>.\<close>

fun countdown :: "string \<Rightarrow> speakers \<Rightarrow> real \<Rightarrow> real list \<Rightarrow> world \<Rightarrow> world option" where
  "countdown round_name spk end_time [] w = None"
| "countdown round_name spk end_time [c] w = (if c < end_time then None else Some w)"
| "countdown round_name spk end_time (c # c' # clock) w =
     (if c < end_time then
        (let w1 = w\<lparr>state := (state w)\<lparr>time_remaining := end_time - c'\<rparr>\<rparr>;
             w2 = send (StateMsg round_name spk (time_remaining (state w1))) None w1
         in if time_remaining (state w2) \<le> 0 then Some w2
            else countdown round_name spk end_time clock w2)
      else Some w)"

definition end_debate :: "world \<Rightarrow> world" where
  "end_debate w =
     send FinalizeScores (Some ''judge'')
       (announce ''Debate concluded. Awaiting final scores from the Judge.'' w)"

text \<open>The part of \<^verbatim>\<open>start_round\<close> after the countdown: the notice, the
  \<^verbatim>\<open>set_speaking\<close> messages that disable, the warning of a short round, the increment
  and the signal to the judge.\<close>

definition finish_round :: "int \<Rightarrow> speakers \<Rightarrow> world \<Rightarrow> world" where
  "finish_round duration spk w =
     (let w1 = announce ''Time's up! Please stop speaking.'' w;
          w2 = (case spk of
                  Crossfire ds \<Rightarrow> set_speaking_loop False ds w1
                | Single debater_id \<Rightarrow>
                    if eligible (mode (state w1)) debater_id
                    then send (SetSpeaking False) (Some (debater_target debater_id)) w1
                    else w1);
          w3 = (if duration = 3 * 60 \<and> time_remaining (state w2) < 0
                then announce (''Warning: Round ended ''
                       @ fmt_1f \<bar>time_remaining (state w2)\<bar>
                       @ ''s early. Points may be deducted.'') w2
                else w2);
          w4 = w3\<lparr>state := (state w3)\<lparr>round_index := round_index (state w3) + 1\<rparr>\<rparr>
      in send ScoreRoundMsg (Some ''judge'') w4)"

definition start_round :: "real list \<Rightarrow> world \<Rightarrow> (py_error option \<times> world) option" where
  "start_round clock w =
     (let rounds = active_rounds (state w) in
      if int (length rounds) \<le> round_index (state w) then Some (None, end_debate w)
      else
        case py_index rounds (round_index (state w)) of
          Inl e \<Rightarrow> Some (Some e, w)
        | Inr (round_name, duration, spk) \<Rightarrow>
            let w1 = w\<lparr>state := (state w)\<lparr>time_remaining := of_int duration\<rparr>\<rparr>;
                w2 = announce (''Starting round: '' @ title (replace_underscores round_name)) w1;
                w3 = send (StateMsg round_name spk (of_int duration)) None w2;
                w4 = set_speaking_loop True (participants spk) w3
            in (case clock of
                  [] \<Rightarrow> None
                | now # clock' \<Rightarrow>
                    (case countdown round_name spk (now + of_int duration) clock' w4 of
                       None \<Rightarrow> None
                     | Some w5 \<Rightarrow> Some (None, finish_round duration spk w5))))"

definition offer_prep_time :: "real list \<Rightarrow> world \<Rightarrow> (py_error option \<times> world) option" where
  "offer_prep_time clock w =
     start_round clock
       (announce ''Do teams need prep time? Reply with team ID (T1/T2) to request.'' w)"

text \<open>\<^verbatim>\<open>initialize_debate\<close>. The outcome of \<^verbatim>\<open>random.shuffle(roles)\<close> is the flag
  \<open>swapped\<close>, the one of \<^verbatim>\<open>random.choice(DEBATE_TOPICS)\<close> the index \<open>pick\<close>.\<close>

definition initialize_debate ::
  "bool \<Rightarrow> nat \<Rightarrow> real list \<Rightarrow> world \<Rightarrow> (py_error option \<times> world) option" where
  "initialize_debate swapped pick clock w =
     (let rs = (if swapped then [''Con'', ''Pro''] else [''Pro'', ''Con'']);
          st = (state w)
                 \<lparr>roles := [''T1'' \<mapsto> rs ! 0, ''T2'' \<mapsto> rs ! 1],
                  topic := DEBATE_TOPICS ! (pick mod length DEBATE_TOPICS),
                  prep_time := [''T1'' \<mapsto> 2 * 60, ''T2'' \<mapsto> 2 * 60],
                  round_index := 0,
                  transcripts := []\<rparr>;
          w1 = announce (''Team T1 (A, B) is '' @ rs ! 0 @ '', Team T2 (C, D) is '' @ rs ! 1
                          @ ''. Topic: '' @ topic st) (w\<lparr>state := st\<rparr>)
      in offer_prep_time clock w1)"

definition request_prep_time ::
  "string \<Rightarrow> real list \<Rightarrow> world \<Rightarrow> (py_error option \<times> world) option" where
  "request_prep_time team clock w =
     (case prep_time (state w) team of
        None \<Rightarrow> Some (None, announce (''Invalid team: '' @ team) w)
      | Some available \<Rightarrow>
          if available \<le> 0
          then Some (None, announce (''Team '' @ team @ '' has no prep time remaining.'') w)
          else
            let duration = min available (2 * 60);
                w1 = w\<lparr>state := (state w)
                        \<lparr>prep_time := (prep_time (state w))(team \<mapsto> available - duration)\<rparr>\<rparr>;
                w2 = announce (''Team '' @ team @ '' using '' @ fmt_1f (duration / 60)
                               @ '' min of prep time.'') w1;
                w3 = announce (''Prep time for Team '' @ team @ '' is over.'') w2
            in start_round clock w3)"

text \<open>The \<^verbatim>\<open>DebateState\<close> that \<^verbatim>\<open>entrypoint\<close> creates, in a world where nothing has
  happened yet.\<close>

definition initial_world :: "string \<Rightarrow> string \<Rightarrow> world" where
  "initial_world room md =
     \<lparr>state = \<lparr>room_id = room, mode = md, round_index = 0, time_remaining = 0,
               roles = Map.empty, topic = [], scores = [''T1'' \<mapsto> [], ''T2'' \<mapsto> []],
               prep_time = Map.empty, transcripts = [], custom_rounds = None\<rparr>,
      score_history = [], sent = [], files = Map.empty, room_deleted = False\<rparr>"

section \<open>The debaters\<close>

text \<open>\<^verbatim>\<open>receive_transcript\<close>: the text cut to 1000 characters goes to the list of the
  round and speaker, the object \<^verbatim>\<open>{speaker: text}\<close> is appended to the round's file.\<close>

definition transcript_file :: "string \<Rightarrow> string \<Rightarrow> string" where
  "transcript_file room round_name = ''transcripts_'' @ room @ ''_'' @ round_name @ ''.json''"

definition append_file :: "string \<Rightarrow> file_record \<Rightarrow> world \<Rightarrow> world" where
  "append_file name r w =
     w\<lparr>files := (files w)(name \<mapsto> (case files w name of None \<Rightarrow> [] | Some rs \<Rightarrow> rs) @ [r])\<rparr>"

definition store_utterance ::
  "string \<Rightarrow> string \<Rightarrow> string \<Rightarrow>
   (string \<times> (string \<times> string list) list) list \<Rightarrow> (string \<times> (string \<times> string list) list) list"
  where
  "store_utterance round_name speaker text ts =
     (let ts1 = (if map_of ts round_name = None then AList.update round_name [] ts else ts);
          per_round = (case map_of ts1 round_name of None \<Rightarrow> [] | Some m \<Rightarrow> m);
          per_round1 = (if map_of per_round speaker = None
                        then AList.update speaker [] per_round else per_round);
          said = (case map_of per_round1 speaker of None \<Rightarrow> [] | Some xs \<Rightarrow> xs)
      in AList.update round_name (AList.update speaker (said @ [take 1000 text]) per_round1) ts1)"

definition receive_transcript :: "string \<Rightarrow> string \<Rightarrow> world \<Rightarrow> py_error option \<times> world" where
  "receive_transcript speaker text w =
     (case py_index ROUNDS (round_index (state w)) of
        Inl e \<Rightarrow> (Some e, w)
      | Inr (round_name, duration, spk) \<Rightarrow>
          let w1 = w\<lparr>state := (state w)
                     \<lparr>transcripts := store_utterance round_name speaker text
                                       (transcripts (state w))\<rparr>\<rparr>
          in (None, append_file (transcript_file (room_id (state w1)) round_name)
                      (TranscriptRec speaker text) w1))"

section \<open>The judge\<close>

definition newline :: char where
  "newline = CHR 0x0A"

definition prompt_header :: "string \<Rightarrow> string" where
  "prompt_header round_name =
     ''Evaluate the following debate round ('' @ round_name
     @ '') based on logic, evidence, delivery, and refutation. ''
     @ ''Assign scores from 21-30 for each team (T1: A, B; T2: C, D). ''
     @ ''Verify factual claims and adjust scores: ''
     @ ''+1-2 for verified facts, -1-2 for incorrect facts. Provide a brief explanation.''
     @ [newline, newline] @ ''Transcripts:'' @ [newline]"

definition build_prompt :: "string \<Rightarrow> (string \<times> string list) list \<Rightarrow> string" where
  "build_prompt round_name trs =
     foldl (\<lambda>prompt (speaker, texts). prompt @ speaker @ '': '' @ join '' '' texts @ [newline])
       (prompt_header round_name) trs"

text \<open>\<^verbatim>\<open>result.get(key, default)\<close> on a parsed object.\<close>

definition dict_get :: "(string \<times> jvalue) list \<Rightarrow> string \<Rightarrow> jvalue \<Rightarrow> jvalue" where
  "dict_get result key dflt = (case map_of result key of None \<Rightarrow> dflt | Some v \<Rightarrow> v)"

text \<open>\<^verbatim>\<open>min(max(v, 21), 30)\<close>: an integer is clamped, a boolean compares as 0 or 1
  and so gives 21, and any other value raises \<^verbatim>\<open>TypeError\<close> in the comparison.\<close>

fun clamp_score :: "jvalue \<Rightarrow> py_error + int" where
  "clamp_score (JInt n) = Inr (min (max n 21) 30)"
| "clamp_score (JBool b) = Inr (min (max (if b then 1 else 0) 21) 30)"
| "clamp_score v = Inl TypeError"

subsection \<open>The clamp on every number\<close>

text \<open>A number as \<^verbatim>\<open>json.loads\<close> returns it: an integer, a finite float (its real
  value), or one of the floats \<^verbatim>\<open>NaN\<close>, \<^verbatim>\<open>Infinity\<close> and \<^verbatim>\<open>-Infinity\<close>, which
  the parser accepts.\<close>

datatype pynum = PInt int | PFloat real | PNaN | PInf | PNegInf

text \<open>\<^verbatim>\<open>a < b\<close> on numbers: integers and floats compare by value, and every
  comparison with \<^verbatim>\<open>NaN\<close> is false.\<close>

fun py_less :: "pynum \<Rightarrow> pynum \<Rightarrow> bool" where
  "py_less PNaN b = False"
| "py_less a PNaN = False"
| "py_less PInf b = False"
| "py_less PNegInf b = (b \<noteq> PNegInf)"
| "py_less a PInf = True"
| "py_less a PNegInf = False"
| "py_less (PInt i) (PInt j) = (i < j)"
| "py_less (PInt i) (PFloat y) = (of_int i < y)"
| "py_less (PFloat x) (PInt j) = (x < of_int j)"
| "py_less (PFloat x) (PFloat y) = (x < y)"

text \<open>\<^verbatim>\<open>max(a, b)\<close> keeps \<open>a\<close> unless \<^verbatim>\<open>b > a\<close>, and \<^verbatim>\<open>min(a, b)\<close> keeps \<open>a\<close>
  unless \<^verbatim>\<open>b < a\<close>.\<close>

definition py_max :: "pynum \<Rightarrow> pynum \<Rightarrow> pynum" where
  "py_max a b = (if py_less a b then b else a)"

definition py_min :: "pynum \<Rightarrow> pynum \<Rightarrow> pynum" where
  "py_min a b = (if py_less b a then b else a)"

text \<open>The expression \<^verbatim>\<open>min(max(result.get("T1", 25), 21), 30)\<close> of
  \<^verbatim>\<open>evaluate_round\<close>, and the same for \<^verbatim>\<open>T2\<close>, on a number \<open>v\<close>. Its value is
  what \<^verbatim>\<open>evaluate_round\<close> assigns to \<^verbatim>\<open>score_t1\<close>, records in the score history and
  returns, and what \<^verbatim>\<open>score_round\<close> appends to the team's list and broadcasts, when
  no shortfall penalty applies.\<close>

definition clamp_number :: "pynum \<Rightarrow> pynum" where
  "clamp_number v = py_min (py_max v (PInt 21)) (PInt 30)"

text \<open>The body of the \<^verbatim>\<open>try\<close> on a parsed object. An exception leaves the
  assignments made before it: \<open>Inl\<close> carries the two scores as they stand then.\<close>

definition read_result ::
  "(string \<times> jvalue) list \<Rightarrow> int \<Rightarrow> int \<Rightarrow> (int \<times> int) + (int \<times> int \<times> jvalue)" where
  "read_result result score_t1 score_t2 =
     (case clamp_score (dict_get result ''T1'' (JInt 25)) of
        Inl e \<Rightarrow> Inl (score_t1, score_t2)
      | Inr t1 \<Rightarrow>
          (case clamp_score (dict_get result ''T2'' (JInt 25)) of
             Inl e \<Rightarrow> Inl (t1, score_t2)
           | Inr t2 \<Rightarrow>
               Inr (t1, t2, dict_get result ''explanation'' (JStr ''No explanation provided''))))"

text \<open>One pass of the \<^verbatim>\<open>try\<close>: \<open>Inr\<close> when it reaches the \<^verbatim>\<open>break\<close>, \<open>Inl\<close> when
  the \<^verbatim>\<open>except\<close> clause catches. A parsed value that is no object has no
  \<^verbatim>\<open>get\<close>.\<close>

fun try_evaluate :: "response \<Rightarrow> int \<Rightarrow> int \<Rightarrow> (int \<times> int) + (int \<times> int \<times> jvalue)" where
  "try_evaluate Raises score_t1 score_t2 = Inl (score_t1, score_t2)"
| "try_evaluate BadJson score_t1 score_t2 = Inl (score_t1, score_t2)"
| "try_evaluate NoText score_t1 score_t2 = read_result [] score_t1 score_t2"
| "try_evaluate (Parsed (JObj result)) score_t1 score_t2 = read_result result score_t1 score_t2"
| "try_evaluate (Parsed v) score_t1 score_t2 = Inl (score_t1, score_t2)"

text \<open>The loop \<^verbatim>\<open>for attempt in range(3)\<close>.\<close>

fun attempt_loop ::
  "backend \<Rightarrow> string \<Rightarrow> nat list \<Rightarrow> int \<times> int \<times> jvalue \<Rightarrow> int \<times> int \<times> jvalue" where
  "attempt_loop llm prompt [] acc = acc"
| "attempt_loop llm prompt (attempt # rest) (score_t1, score_t2, explanation) =
     (case try_evaluate (llm prompt attempt) score_t1 score_t2 of
        Inr done \<Rightarrow> done
      | Inl (t1, t2) \<Rightarrow>
          attempt_loop llm prompt rest
            (t1, t2, if attempt = 2 then JStr ''Failed to evaluate round'' else explanation))"

text \<open>\<^verbatim>\<open>explanation += note\<close>: a string is extended, a list takes the characters of
  the note as elements, and anything else (a number, a boolean, \<^verbatim>\<open>None\<close>, an
  object) has no addition with a string and raises \<^verbatim>\<open>TypeError\<close>.\<close>

fun add_note :: "jvalue \<Rightarrow> string \<Rightarrow> py_error + jvalue" where
  "add_note (JStr s) note = Inr (JStr (s @ note))"
| "add_note (JArr xs) note = Inr (JArr (xs @ map (\<lambda>c. JStr [c]) note))"
| "add_note v note = Inl TypeError"

definition penalty_note :: "real \<Rightarrow> string" where
  "penalty_note shortfall = '' Deducted '' @ fmt_1f shortfall @ '' points for early round end.''"

text \<open>The shortfall penalty of \<^verbatim>\<open>evaluate_round\<close>, with its test on
  \<^verbatim>\<open>ROUNDS[state.round_index][1]\<close>.\<close>

definition apply_penalty ::
  "DebateState \<Rightarrow> int \<times> int \<times> jvalue \<Rightarrow> py_error + (int \<times> int \<times> jvalue)" where
  "apply_penalty st acc =
     (case acc of (score_t1, score_t2, explanation) \<Rightarrow>
        (case py_index ROUNDS (round_index st) of
           Inl e \<Rightarrow> Inl e
         | Inr (name, duration, spk) \<Rightarrow>
             if duration = 3 * 60 \<and> time_remaining st < 0 then
               (let shortfall = \<bar>time_remaining st\<bar> / 30 in
                case add_note explanation (penalty_note shortfall) of
                  Inl e \<Rightarrow> Inl e
                | Inr explanation' \<Rightarrow>
                    Inr (max 21 (score_t1 - py_int shortfall),
                         max 21 (score_t2 - py_int shortfall), explanation'))
             else Inr acc))"

definition evaluate_round ::
  "backend \<Rightarrow> string \<Rightarrow> (string \<times> string list) list \<Rightarrow> world \<Rightarrow> py_error + (int \<times> int \<times> world)"
  where
  "evaluate_round llm round_name trs w =
     (case apply_penalty (state w)
             (attempt_loop llm (build_prompt round_name trs) [0..<3]
                (25, 25, JStr ''Default score'')) of
        Inl e \<Rightarrow> Inl e
      | Inr (score_t1, score_t2, explanation) \<Rightarrow>
          Inr (score_t1, score_t2,
               w\<lparr>score_history := score_history w
                    @ [\<lparr>sr_round = round_name, sr_T1_score = score_t1,
                        sr_T2_score = score_t2, sr_explanation = explanation\<rparr>]\<rparr>))"

text \<open>\<^verbatim>\<open>context.userdata.scores[team].append(score)\<close>.\<close>

definition append_score :: "string \<Rightarrow> int \<Rightarrow> world \<Rightarrow> py_error + world" where
  "append_score team score w =
     (case scores (state w) team of
        None \<Rightarrow> Inl KeyError
      | Some xs \<Rightarrow> Inr (w\<lparr>state := (state w)\<lparr>scores := (scores (state w))(team \<mapsto> xs @ [score])\<rparr>\<rparr>))"

definition score_round :: "backend \<Rightarrow> world \<Rightarrow> py_error option \<times> world" where
  "score_round llm w =
     (case py_index ROUNDS (round_index (state w) - 1) of
        Inl e \<Rightarrow> (Some e, w)
      | Inr (round_name, duration, spk) \<Rightarrow>
          (case evaluate_round llm round_name
                  (case map_of (transcripts (state w)) round_name of None \<Rightarrow> [] | Some t \<Rightarrow> t) w of
             Inl e \<Rightarrow> (Some e, w)
           | Inr (score_t1, score_t2, w1) \<Rightarrow>
               (case append_score ''T1'' score_t1 w1 of
                  Inl e \<Rightarrow> (Some e, w1)
                | Inr w2 \<Rightarrow>
                    (case append_score ''T2'' score_t2 w2 of
                       Inl e \<Rightarrow> (Some e, w2)
                     | Inr w3 \<Rightarrow>
                         (None,
                          send ContinueDebate (Some ''moderator'')
                            (send (ScoresMsg round_name score_t1 score_t2
                                     (sr_explanation (last (score_history w3)))) None w3))))))"

text \<open>\<^verbatim>\<open>sum(xs) / len(xs) if xs else 0\<close>.\<close>

definition average :: "int list \<Rightarrow> real" where
  "average xs = (if xs \<noteq> [] then of_int (sum_list xs) / of_nat (length xs) else 0)"

definition results_file :: "string \<Rightarrow> string" where
  "results_file room = ''debate_results_'' @ room @ ''.json''"

definition make_feedback :: "real \<Rightarrow> real \<Rightarrow> score_record list \<Rightarrow> feedback" where
  "make_feedback avg_t1 avg_t2 history =
     (let winner = (if avg_t2 < avg_t1 then ''T1'' else if avg_t1 < avg_t2 then ''T2'' else ''Tie'')
      in \<lparr>fb_winner = winner,
          fb_T1_avg_score = py_round2 avg_t1,
          fb_T2_avg_score = py_round2 avg_t2,
          fb_T1_strengths =
            (if 27 \<le> avg_t1 then ''Strong logic and delivery'' else ''Consistent arguments''),
          fb_T1_improvements =
            (if winner = ''T2'' then ''Improve evidence if T1 lost'' else ''Maintain clarity''),
          fb_T2_strengths =
            (if 27 \<le> avg_t2 then ''Effective refutation'' else ''Good engagement''),
          fb_T2_improvements =
            (if winner = ''T1'' then ''Enhance factual accuracy if T2 lost''
             else ''Sustain persuasiveness''),
          fb_score_history = history\<rparr>)"

definition finalize_scores :: "world \<Rightarrow> py_error option \<times> world" where
  "finalize_scores w =
     (case scores (state w) ''T1'' of
        None \<Rightarrow> (Some KeyError, w)
      | Some xs1 \<Rightarrow>
          (case scores (state w) ''T2'' of
             None \<Rightarrow> (Some KeyError, w)
           | Some xs2 \<Rightarrow>
               (let fb = make_feedback (average xs1) (average xs2) (score_history w);
                    w1 = w\<lparr>files := (files w)(results_file (room_id (state w)) \<mapsto> [ResultsRec fb])\<rparr>;
                    w2 = send (FinalResults (fb_winner fb) (fb_T1_avg_score fb)
                                 (fb_T2_avg_score fb) fb) None w1
                in (None, w2\<lparr>room_deleted := True\<rparr>))))"

section \<open>A debate as a sequence of events\<close>

text \<open>
  The agents react to messages. An event is one reaction: the moderator starts a round
  (on \<^verbatim>\<open>continue_debate\<close>) or grants preparation time, a debater receives a transcript,
  the judge scores a round or finalizes. The judge scores once for each
  \<^verbatim>\<open>score_round\<close> signal it has been sent: the state of a debate pairs the world with
  the number of signals the judge has handled. \<open>None\<close> is an event that cannot happen
  or a round whose countdown has not ended.
\<close>

datatype event =
    Continue "real list"
  | Prep string "real list"
  | Utterance string string
  | Score backend
  | Finalize

definition score_signals :: "world \<Rightarrow> nat" where
  "score_signals w = length (filter (\<lambda>m. m = (ScoreRoundMsg, Some ''judge'')) (sent w))"

fun step :: "event \<Rightarrow> world \<times> nat \<Rightarrow> (world \<times> nat) option" where
  "step (Continue clock) (w, handled) =
     (case start_round clock w of None \<Rightarrow> None | Some (e, w') \<Rightarrow> Some (w', handled))"
| "step (Prep team clock) (w, handled) =
     (case request_prep_time team clock w of None \<Rightarrow> None | Some (e, w') \<Rightarrow> Some (w', handled))"
| "step (Utterance speaker text) (w, handled) =
     Some (snd (receive_transcript speaker text w), handled)"
| "step (Score llm) (w, handled) =
     (if handled < score_signals w then Some (snd (score_round llm w), Suc handled) else None)"
| "step Finalize (w, handled) = Some (snd (finalize_scores w), handled)"

fun run :: "event list \<Rightarrow> world \<times> nat \<Rightarrow> (world \<times> nat) option" where
  "run [] s = Some s"
| "run (ev # evs) s = (case step ev s of None \<Rightarrow> None | Some s' \<Rightarrow> run evs s')"

text \<open>A debate: the moderator enters a fresh room, initializes (which runs the first
  round), and the events follow.\<close>

definition debate ::
  "string \<Rightarrow> string \<Rightarrow> bool \<Rightarrow> nat \<Rightarrow> real list \<Rightarrow> event list \<Rightarrow> (world \<times> nat) option" where
  "debate room md swapped pick clock evs =
     (case initialize_debate swapped pick clock (initial_world room md) of
        None \<Rightarrow> None
      | Some (e, w) \<Rightarrow> run evs (w, 0))"

section \<open>Observations used in the statements\<close>

text \<open>The range of a score, the scores a team holds, the scores a message carries.\<close>

definition valid_score :: "int \<Rightarrow> bool" where
  "valid_score s = (21 \<le> s \<and> s \<le> 30)"

definition team_scores :: "world \<Rightarrow> string \<Rightarrow> int list" where
  "team_scores w team = (case scores (state w) team of None \<Rightarrow> [] | Some xs \<Rightarrow> xs)"

fun message_scores :: "message \<Rightarrow> int list" where
  "message_scores (ScoresMsg rn a b ex) = [a, b]"
| "message_scores m = []"

text \<open>A number lies in the closed interval from 21 to 30.\<close>

definition num_in_range :: "pynum \<Rightarrow> bool" where
  "num_in_range v = (v \<noteq> PNaN \<and> \<not> py_less v (PInt 21) \<and> \<not> py_less (PInt 30) v)"

text \<open>Every integer score that a world holds, records in the history or has broadcast
  lies in the range.\<close>

definition scores_in_range :: "world \<Rightarrow> bool" where
  "scores_in_range w =
     ((\<forall>s\<in>set (team_scores w ''T1'' @ team_scores w ''T2''). valid_score s) \<and>
      (\<forall>r\<in>set (score_history w). valid_score (sr_T1_score r) \<and> valid_score (sr_T2_score r)) \<and>
      (\<forall>m\<in>set (sent w). \<forall>s\<in>set (message_scores (fst m)). valid_score s))"

text \<open>The \<^verbatim>\<open>score_round\<close> signal of the moderator to the judge: one for each completed
  round.\<close>

definition is_score_signal :: "message \<times> string option \<Rightarrow> bool" where
  "is_score_signal m = (m = (ScoreRoundMsg, Some ''judge''))"


text \<open>What the transcripts hold for a round and a speaker, and what a file holds.\<close>

definition utterances :: "DebateState \<Rightarrow> string \<Rightarrow> string \<Rightarrow> string list" where
  "utterances st round_name speaker =
     (case map_of (transcripts st) round_name of
        None \<Rightarrow> []
      | Some per_round \<Rightarrow> (case map_of per_round speaker of None \<Rightarrow> [] | Some xs \<Rightarrow> xs))"

definition file_records :: "world \<Rightarrow> string \<Rightarrow> file_record list" where
  "file_records w name = (case files w name of None \<Rightarrow> [] | Some rs \<Rightarrow> rs)"

text \<open>The arithmetic mean as the specification words it: 0 when no round was scored.\<close>

definition spec_mean :: "int list \<Rightarrow> real" where
  "spec_mean xs = (if xs = [] then 0 else (\<Sum>x\<leftarrow>xs. real_of_int x) / real (length xs))"



text \<open>A fresh room put at a given round and remaining time.\<close>

definition world_at :: "string \<Rightarrow> int \<Rightarrow> real \<Rightarrow> world" where
  "world_at md i t =
     (initial_world ''room'' md)
       \<lparr>state := (state (initial_world ''room'' md))\<lparr>round_index := i, time_remaining := t\<rparr>\<rparr>"

section \<open>The effect of each method\<close>

subsection \<open>The moderator\<close>

lemma set_speaking_loop_eq:
  "set_speaking_loop b ds w =
     w\<lparr>sent := sent w @ map (\<lambda>d. (SetSpeaking b, Some (debater_target d)))
                          (filter (eligible (mode (state w))) ds)\<rparr>"
  by (induction ds arbitrary: w) (simp_all add: send_def)

lemma countdown_shape:
  "countdown rn sp end_time clock w = Some w' \<Longrightarrow>
   \<exists>t ticks. w' = w\<lparr>state := (state w)\<lparr>time_remaining := t\<rparr>,
                     sent := sent w @ map (\<lambda>tr. (StateMsg rn sp tr, None)) ticks\<rparr>"
proof (induction rn sp end_time clock w arbitrary: w' rule: countdown.induct)
  case (1 rn sp end_time w)
  then show ?case by simp
next
  case (2 rn sp end_time c w)
  then have "w' = w" by (simp split: if_splits)
  then have "w' = w\<lparr>state := (state w)\<lparr>time_remaining := time_remaining (state w)\<rparr>,
                     sent := sent w @ map (\<lambda>tr. (StateMsg rn sp tr, None)) []\<rparr>"
    by simp
  then show ?case by blast
next
  case (3 rn sp end_time c c' clock w)
  define w2 where "w2 = send (StateMsg rn sp (end_time - c')) None
                          (w\<lparr>state := (state w)\<lparr>time_remaining := end_time - c'\<rparr>\<rparr>)"
  show ?case
  proof (cases "c < end_time")
    case False
    with 3 have "w' = w" by simp
    then have "w' = w\<lparr>state := (state w)\<lparr>time_remaining := time_remaining (state w)\<rparr>,
                     sent := sent w @ map (\<lambda>tr. (StateMsg rn sp tr, None)) []\<rparr>"
      by simp
    then show ?thesis by blast
  next
    case True
    show ?thesis
    proof (cases "end_time - c' \<le> 0")
      case True
      with \<open>c < end_time\<close> 3(2) have "w' = w2"
        by (simp add: w2_def Let_def send_def)
      then have "w' = w\<lparr>state := (state w)\<lparr>time_remaining := end_time - c'\<rparr>,
                     sent := sent w @ map (\<lambda>tr. (StateMsg rn sp tr, None)) [end_time - c']\<rparr>"
        by (simp add: w2_def send_def)
      then show ?thesis by blast
    next
      case False
      with \<open>c < end_time\<close> 3(2) have run: "countdown rn sp end_time clock w2 = Some w'"
        by (simp add: w2_def Let_def send_def)
      have "\<exists>t ticks. w' = w2\<lparr>state := (state w2)\<lparr>time_remaining := t\<rparr>,
                     sent := sent w2 @ map (\<lambda>tr. (StateMsg rn sp tr, None)) ticks\<rparr>"
        using 3(1)[OF \<open>c < end_time\<close> _ _ _ run] False
        by (simp add: w2_def send_def)
      then obtain t ticks where "w' = w2\<lparr>state := (state w2)\<lparr>time_remaining := t\<rparr>,
                     sent := sent w2 @ map (\<lambda>tr. (StateMsg rn sp tr, None)) ticks\<rparr>"
        by blast
      then have "w' = w\<lparr>state := (state w)\<lparr>time_remaining := t\<rparr>,
                     sent := sent w @ map (\<lambda>tr. (StateMsg rn sp tr, None)) ((end_time - c') # ticks)\<rparr>"
        by (simp add: w2_def send_def)
      then show ?thesis by blast
    qed
  qed
qed

text \<open>The countdown ends as soon as the clock shows the deadline.\<close>

lemma countdown_finishes:
  "\<exists>c\<in>set clock. end_time \<le> c \<Longrightarrow> countdown rn sp end_time clock w \<noteq> None"
proof (induction rn sp end_time clock w rule: countdown.induct)
  case (1 rn sp end_time w)
  then show ?case by simp
next
  case (2 rn sp end_time c w)
  then show ?case by simp
next
  case (3 rn sp end_time c c' clock w)
  show ?case
  proof (cases "c < end_time \<and> 0 < end_time - c'")
    case True
    with 3(2) have "\<exists>c\<in>set clock. end_time \<le> c" by auto
    with 3(1) True show ?thesis by (simp add: Let_def send_def)
  next
    case False
    then show ?thesis by (auto simp: Let_def send_def)
  qed
qed

lemma finish_round_eq:
  "finish_round d sp w =
     w\<lparr>state := (state w)\<lparr>round_index := round_index (state w) + 1\<rparr>,
       sent := sent w @ [(Announcement ''Time's up! Please stop speaking.'', None)]
                 @ map (\<lambda>d. (SetSpeaking False, Some (debater_target d)))
                       (filter (eligible (mode (state w))) (participants sp))
                 @ (if d = 180 \<and> time_remaining (state w) < 0
                    then [(Announcement (''Warning: Round ended '' @ fmt_1f \<bar>time_remaining (state w)\<bar>
                            @ ''s early. Points may be deducted.''), None)] else [])
                 @ [(ScoreRoundMsg, Some ''judge'')]\<rparr>"
  by (cases sp) (simp_all add: finish_round_def Let_def announce_def send_def set_speaking_loop_eq)

lemma end_debate_eq:
  "end_debate w = w\<lparr>sent := sent w
      @ [(Announcement ''Debate concluded. Awaiting final scores from the Judge.'', None),
         (FinalizeScores, Some ''judge'')]\<rparr>"
  by (simp add: end_debate_def announce_def send_def)

text \<open>The three ways \<^verbatim>\<open>start_round\<close> returns: the sequence is exhausted, the index
  is below the sequence, or the round runs to its end.\<close>

lemma start_round_cases:
  assumes "start_round clock w = Some (e, w')"
  shows "(int (length (active_rounds (state w))) \<le> round_index (state w) \<and> e = None \<and> w' = end_debate w)
       \<or> (py_index (active_rounds (state w)) (round_index (state w)) = Inl IndexError \<and> e = Some IndexError \<and> w' = w)
       \<or> (\<exists>rn d sp t ticks.
            round_index (state w) < int (length (active_rounds (state w))) \<and>
            py_index (active_rounds (state w)) (round_index (state w)) = Inr (rn, d, sp) \<and> e = None \<and>
            w' = w\<lparr>state := (state w)\<lparr>round_index := round_index (state w) + 1, time_remaining := t\<rparr>,
                   sent := sent w
                     @ [(Announcement (''Starting round: '' @ title (replace_underscores rn)), None),
                        (StateMsg rn sp (of_int d), None)]
                     @ map (\<lambda>d. (SetSpeaking True, Some (debater_target d)))
                           (filter (eligible (mode (state w))) (participants sp))
                     @ map (\<lambda>tr. (StateMsg rn sp tr, None)) ticks
                     @ [(Announcement ''Time's up! Please stop speaking.'', None)]
                     @ map (\<lambda>d. (SetSpeaking False, Some (debater_target d)))
                           (filter (eligible (mode (state w))) (participants sp))
                     @ (if d = 180 \<and> t < 0
                        then [(Announcement (''Warning: Round ended '' @ fmt_1f \<bar>t\<bar>
                                @ ''s early. Points may be deducted.''), None)] else [])
                     @ [(ScoreRoundMsg, Some ''judge'')]\<rparr>)"
proof (cases "int (length (active_rounds (state w))) \<le> round_index (state w)")
  case True
  with assms show ?thesis by (simp add: start_round_def)
next
  case False
  show ?thesis
  proof (cases "py_index (active_rounds (state w)) (round_index (state w))")
    case (Inl err)
    then have "err = IndexError" by (simp add: py_index_def split: if_splits)
    with Inl False assms show ?thesis by (simp add: start_round_def)
  next
    case (Inr r)
    obtain rn d sp where r: "r = (rn, d, sp)" by (cases r) auto
    define w4 where "w4 = set_speaking_loop True (participants sp)
        (send (StateMsg rn sp (of_int d)) None
          (announce (''Starting round: '' @ title (replace_underscores rn))
            (w\<lparr>state := (state w)\<lparr>time_remaining := of_int d\<rparr>\<rparr>)))"
    from assms False Inr r obtain now clock' w5 where
      cd: "countdown rn sp (now + of_int d) clock' w4 = Some w5"
      and res: "e = None" "w' = finish_round d sp w5"
      by (auto simp: start_round_def Let_def w4_def split: list.splits option.splits)
    from countdown_shape[OF cd] obtain t ticks where
      w5: "w5 = w4\<lparr>state := (state w4)\<lparr>time_remaining := t\<rparr>,
                    sent := sent w4 @ map (\<lambda>tr. (StateMsg rn sp tr, None)) ticks\<rparr>"
      by blast
    have "w' = w\<lparr>state := (state w)\<lparr>round_index := round_index (state w) + 1, time_remaining := t\<rparr>,
                   sent := sent w
                     @ [(Announcement (''Starting round: '' @ title (replace_underscores rn)), None),
                        (StateMsg rn sp (of_int d), None)]
                     @ map (\<lambda>d. (SetSpeaking True, Some (debater_target d)))
                           (filter (eligible (mode (state w))) (participants sp))
                     @ map (\<lambda>tr. (StateMsg rn sp tr, None)) ticks
                     @ [(Announcement ''Time's up! Please stop speaking.'', None)]
                     @ map (\<lambda>d. (SetSpeaking False, Some (debater_target d)))
                           (filter (eligible (mode (state w))) (participants sp))
                     @ (if d = 180 \<and> t < 0
                        then [(Announcement (''Warning: Round ended '' @ fmt_1f \<bar>t\<bar>
                                @ ''s early. Points may be deducted.''), None)] else [])
                     @ [(ScoreRoundMsg, Some ''judge'')]\<rparr>"
      unfolding res(2) finish_round_eq w5 w4_def set_speaking_loop_eq
      by (simp add: announce_def send_def)
    with False Inr r res(1) show ?thesis by auto
  qed
qed

lemma start_round_returns:
  assumes "py_index (active_rounds (state w)) (round_index (state w)) = Inr (rn, d, sp)"
    and "round_index (state w) < int (length (active_rounds (state w)))"
    and "\<exists>c\<in>set clock. now + of_int d \<le> c"
  shows "\<exists>w'. start_round (now # clock) w = Some (None, w')"
proof -
  let ?w4 = "set_speaking_loop True (participants sp)
        (send (StateMsg rn sp (of_int d)) None
          (announce (''Starting round: '' @ title (replace_underscores rn))
            (w\<lparr>state := (state w)\<lparr>time_remaining := of_int d\<rparr>\<rparr>)))"
  from countdown_finishes[OF assms(3)] obtain w5 where
    "countdown rn sp (now + of_int d) clock ?w4 = Some w5" by blast
  with assms(1,2) show ?thesis by (simp add: start_round_def Let_def)
qed

lemma score_signals_alt: "score_signals w = length (filter is_score_signal (sent w))"
  by (simp add: score_signals_def is_score_signal_def[abs_def])

lemma start_round_frame:
  assumes "start_round clock w = Some (e, w')"
  shows "\<exists>t k msgs.
           w' = w\<lparr>state := (state w)\<lparr>round_index := round_index (state w) + int k,
                                     time_remaining := t\<rparr>,
                   sent := sent w @ msgs\<rparr> \<and>
           (\<forall>m\<in>set msgs. message_scores (fst m) = []) \<and>
           length (filter is_score_signal msgs) = k \<and>
           (k = 0 \<or> k = 1 \<and> round_index (state w) < int (length (active_rounds (state w))))"
  using start_round_cases[OF assms]
proof (elim disjE conjE exE)
  assume "w' = end_debate w"
  then have "w' = w\<lparr>state := (state w)\<lparr>round_index := round_index (state w) + int 0,
                                     time_remaining := time_remaining (state w)\<rparr>,
                   sent := sent w
      @ [(Announcement ''Debate concluded. Awaiting final scores from the Judge.'', None),
         (FinalizeScores, Some ''judge'')]\<rparr>"
    by (simp add: end_debate_eq)
  then show ?thesis
    by (rule_tac x="time_remaining (state w)" in exI, rule_tac x=0 in exI,
        rule_tac x="[(Announcement ''Debate concluded. Awaiting final scores from the Judge.'', None),
         (FinalizeScores, Some ''judge'')]" in exI) (simp add: is_score_signal_def)
next
  assume "w' = w"
  then have "w' = w\<lparr>state := (state w)\<lparr>round_index := round_index (state w) + int 0,
                                     time_remaining := time_remaining (state w)\<rparr>,
                   sent := sent w @ []\<rparr>"
    by simp
  then show ?thesis
    by (rule_tac x="time_remaining (state w)" in exI, rule_tac x=0 in exI,
        rule_tac x="[]" in exI) simp
next
  fix rn d sp t ticks
  assume lt: "round_index (state w) < int (length (active_rounds (state w)))"
    and w': "w' = w\<lparr>state := (state w)\<lparr>round_index := round_index (state w) + 1, time_remaining := t\<rparr>,
                   sent := sent w
                     @ [(Announcement (''Starting round: '' @ title (replace_underscores rn)), None),
                        (StateMsg rn sp (of_int d), None)]
                     @ map (\<lambda>d. (SetSpeaking True, Some (debater_target d)))
                           (filter (eligible (mode (state w))) (participants sp))
                     @ map (\<lambda>tr. (StateMsg rn sp tr, None)) ticks
                     @ [(Announcement ''Time's up! Please stop speaking.'', None)]
                     @ map (\<lambda>d. (SetSpeaking False, Some (debater_target d)))
                           (filter (eligible (mode (state w))) (participants sp))
                     @ (if d = 180 \<and> t < 0
                        then [(Announcement (''Warning: Round ended '' @ fmt_1f \<bar>t\<bar>
                                @ ''s early. Points may be deducted.''), None)] else [])
                     @ [(ScoreRoundMsg, Some ''judge'')]\<rparr>"
  let ?msgs = "[(Announcement (''Starting round: '' @ title (replace_underscores rn)), None),
                        (StateMsg rn sp (of_int d), None)]
                     @ map (\<lambda>d. (SetSpeaking True, Some (debater_target d)))
                           (filter (eligible (mode (state w))) (participants sp))
                     @ map (\<lambda>tr. (StateMsg rn sp tr, None)) ticks
                     @ [(Announcement ''Time's up! Please stop speaking.'', None)]
                     @ map (\<lambda>d. (SetSpeaking False, Some (debater_target d)))
                           (filter (eligible (mode (state w))) (participants sp))
                     @ (if d = 180 \<and> t < 0
                        then [(Announcement (''Warning: Round ended '' @ fmt_1f \<bar>t\<bar>
                                @ ''s early. Points may be deducted.''), None)] else [])
                     @ [(ScoreRoundMsg, Some ''judge'')]"
  have a: "\<forall>m\<in>set ?msgs. message_scores (fst m) = []" by auto
  have b: "length (filter is_score_signal ?msgs) = 1"
    by (simp add: is_score_signal_def filter_map comp_def)
  from w' have c: "w' = w\<lparr>state := (state w)\<lparr>round_index := round_index (state w) + int 1,
                                     time_remaining := t\<rparr>,
                   sent := sent w @ ?msgs\<rparr>" by simp
  from a b c lt show ?thesis by blast
qed

lemma request_prep_time_frame:
  assumes "request_prep_time team clock w = Some (e, w')"
  shows "\<exists>t k p msgs.
           w' = w\<lparr>state := (state w)\<lparr>round_index := round_index (state w) + int k,
                                     time_remaining := t, prep_time := p\<rparr>,
                   sent := sent w @ msgs\<rparr> \<and>
           (\<forall>m\<in>set msgs. message_scores (fst m) = []) \<and>
           length (filter is_score_signal msgs) = k \<and>
           (k = 0 \<or> k = 1 \<and> round_index (state w) < int (length (active_rounds (state w))))"
proof (cases "prep_time (state w) team")
  case None
  with assms have "w' = w\<lparr>state := (state w)\<lparr>round_index := round_index (state w) + int 0,
                                     time_remaining := time_remaining (state w),
                                     prep_time := prep_time (state w)\<rparr>,
                   sent := sent w @ [(Announcement (''Invalid team: '' @ team), None)]\<rparr>"
    by (simp add: request_prep_time_def announce_def send_def)
  then show ?thesis
    by (rule_tac x="time_remaining (state w)" in exI, rule_tac x=0 in exI,
        rule_tac x="prep_time (state w)" in exI,
        rule_tac x="[(Announcement (''Invalid team: '' @ team), None)]" in exI)
       (simp add: is_score_signal_def)
next
  case (Some available)
  show ?thesis
  proof (cases "available \<le> 0")
    case True
    with assms Some have "w' = w\<lparr>state := (state w)\<lparr>round_index := round_index (state w) + int 0,
                                     time_remaining := time_remaining (state w),
                                     prep_time := prep_time (state w)\<rparr>,
                   sent := sent w @ [(Announcement (''Team '' @ team @ '' has no prep time remaining.''), None)]\<rparr>"
      by (simp add: request_prep_time_def announce_def send_def)
    then show ?thesis
      by (rule_tac x="time_remaining (state w)" in exI, rule_tac x=0 in exI,
        rule_tac x="prep_time (state w)" in exI,
        rule_tac x="[(Announcement (''Team '' @ team @ '' has no prep time remaining.''), None)]" in exI)
       (simp add: is_score_signal_def)
  next
    case False
    define p where "p = (prep_time (state w))(team \<mapsto> available - min available (2 * 60))"
    define pre :: "(message \<times> string option) list" where "pre = [(Announcement (''Team '' @ team @ '' using ''
                               @ fmt_1f (min available (2 * 60) / 60) @ '' min of prep time.''), None),
                             (Announcement (''Prep time for Team '' @ team @ '' is over.''), None)]"
    define w3 where "w3 = w\<lparr>state := (state w)\<lparr>prep_time := p\<rparr>, sent := sent w @ pre\<rparr>"
    from assms Some False have "start_round clock w3 = Some (e, w')"
      by (simp add: request_prep_time_def Let_def announce_def send_def w3_def p_def pre_def)
    from start_round_frame[OF this] obtain t k msgs where
      w': "w' = w3\<lparr>state := (state w3)\<lparr>round_index := round_index (state w3) + int k,
                                     time_remaining := t\<rparr>,
                   sent := sent w3 @ msgs\<rparr>"
      and m: "\<forall>m\<in>set msgs. message_scores (fst m) = []"
      and k: "length (filter is_score_signal msgs) = k"
         "k = 0 \<or> k = 1 \<and> round_index (state w3) < int (length (active_rounds (state w3)))"
      by blast
    from w' have 1: "w' = w\<lparr>state := (state w)\<lparr>round_index := round_index (state w) + int k,
                                     time_remaining := t, prep_time := p\<rparr>,
                   sent := sent w @ (pre @ msgs)\<rparr>"
      by (simp add: w3_def)
    from m have 2: "\<forall>m\<in>set (pre @ msgs). message_scores (fst m) = []"
      by (auto simp: pre_def)
    from k(1) have 3: "length (filter is_score_signal (pre @ msgs)) = k"
      by (simp add: pre_def is_score_signal_def)
    from k(2) have 4: "k = 0 \<or> k = 1 \<and> round_index (state w) < int (length (active_rounds (state w)))"
      by (simp add: w3_def active_rounds_def)
    from 1 2 3 4 show ?thesis by blast
  qed
qed

lemma initialize_debate_frame:
  assumes "initialize_debate swapped pick clock (initial_world room md) = Some (e, w)"
  shows "scores (state w) = [''T1'' \<mapsto> [], ''T2'' \<mapsto> []] \<and> score_history w = [] \<and>
         prep_time (state w) = [''T1'' \<mapsto> 120, ''T2'' \<mapsto> 120] \<and>
         custom_rounds (state w) = None \<and>
         int (score_signals w) = round_index (state w) \<and>
         0 \<le> round_index (state w) \<and> round_index (state w) \<le> 1 \<and>
         (\<forall>m\<in>set (sent w). message_scores (fst m) = [])"
proof -
  let ?rs = "if swapped then [''Con'', ''Pro''] else [''Pro'', ''Con'']"
  define st where "st = (state (initial_world room md))
                 \<lparr>roles := [''T1'' \<mapsto> ?rs ! 0, ''T2'' \<mapsto> ?rs ! 1],
                  topic := DEBATE_TOPICS ! (pick mod length DEBATE_TOPICS),
                  prep_time := [''T1'' \<mapsto> 2 * 60, ''T2'' \<mapsto> 2 * 60],
                  round_index := 0,
                  transcripts := []\<rparr>"
  define w1 where "w1 = announce ''Do teams need prep time? Reply with team ID (T1/T2) to request.''
     (announce (''Team T1 (A, B) is '' @ ?rs ! 0 @ '', Team T2 (C, D) is '' @ ?rs ! 1
                          @ ''. Topic: '' @ topic st) ((initial_world room md)\<lparr>state := st\<rparr>))"
  from assms have "start_round clock w1 = Some (e, w)"
    by (simp add: initialize_debate_def offer_prep_time_def Let_def w1_def st_def)
  from start_round_frame[OF this] obtain t k msgs where
    w: "w = w1\<lparr>state := (state w1)\<lparr>round_index := round_index (state w1) + int k,
                                     time_remaining := t\<rparr>,
                   sent := sent w1 @ msgs\<rparr>"
    and m: "\<forall>m\<in>set msgs. message_scores (fst m) = []"
    and k: "length (filter is_score_signal msgs) = k" "k = 0 \<or> k = 1"
    by blast
  from k(2) have "k \<le> 1" by auto
  with w m k(1) show ?thesis
    by (auto simp: w1_def st_def initial_world_def announce_def send_def score_signals_alt
        is_score_signal_def)
qed

lemma active_rounds_frame [simp]:
  "active_rounds (st\<lparr>round_index := i\<rparr>) = active_rounds st"
  "active_rounds (st\<lparr>time_remaining := t\<rparr>) = active_rounds st"
  "active_rounds (st\<lparr>prep_time := p\<rparr>) = active_rounds st"
  "active_rounds (st\<lparr>transcripts := tr\<rparr>) = active_rounds st"
  "active_rounds (st\<lparr>scores := sc\<rparr>) = active_rounds st"
  by (simp_all add: active_rounds_def)

subsection \<open>The debaters\<close>

lemma receive_transcript_frame:
  "receive_transcript speaker text w = (e, w') \<Longrightarrow>
   \<exists>tr f. w' = w\<lparr>state := (state w)\<lparr>transcripts := tr\<rparr>, files := f\<rparr>"
proof (cases "py_index ROUNDS (round_index (state w))")
  case (Inl err)
  assume "receive_transcript speaker text w = (e, w')"
  with Inl have "w' = w\<lparr>state := (state w)\<lparr>transcripts := transcripts (state w)\<rparr>, files := files w\<rparr>"
    by (simp add: receive_transcript_def)
  then show ?thesis by blast
next
  case (Inr r)
  assume "receive_transcript speaker text w = (e, w')"
  with Inr show ?thesis
    by (cases r) (auto simp: receive_transcript_def append_file_def Let_def)
qed

lemma utterances_store:
  "utterances (st\<lparr>transcripts := store_utterance rn speaker utt (transcripts st)\<rparr>) r s =
     (if r = rn \<and> s = speaker then utterances st rn speaker @ [take 1000 utt]
      else utterances st r s)"
  by (auto simp: utterances_def store_utterance_def Let_def update_conv' split: option.splits)

subsection \<open>The judge\<close>

lemma length_ROUNDS: "length ROUNDS = 11"
  by (simp add: ROUNDS_def)

lemma range3: "[0..<3] = [0, 1, 2]"
  by (simp add: upt_rec)

lemma clamp_score_range: "clamp_score v = Inr s \<Longrightarrow> valid_score s"
  by (cases v) (auto simp: valid_score_def)

text \<open>On an integer the clamp on numbers is the clamp of the model, and it brings every
  number but \<^verbatim>\<open>NaN\<close> into the range.\<close>

lemma clamp_number_int: "clamp_number (PInt n) = PInt (min (max n 21) 30)"
  by (simp add: clamp_number_def py_max_def py_min_def)

lemma clamp_score_number: "clamp_score (JInt n) = Inr m \<longleftrightarrow> clamp_number (PInt n) = PInt m"
  by (auto simp: clamp_number_int)

lemma clamp_number_in_range: "v \<noteq> PNaN \<Longrightarrow> num_in_range (clamp_number v)"
  by (cases v) (auto simp: clamp_number_def py_max_def py_min_def num_in_range_def)

lemma read_result_range:
  assumes "valid_score a" "valid_score b"
  shows "read_result r a b = Inl (a', b') \<Longrightarrow> valid_score a' \<and> valid_score b'"
    and "read_result r a b = Inr (a', b', ex) \<Longrightarrow> valid_score a' \<and> valid_score b'"
  using assms
  by (auto simp: read_result_def split: sum.splits dest: clamp_score_range)

lemma try_evaluate_range:
  assumes "valid_score a" "valid_score b"
  shows "try_evaluate resp a b = Inl (a', b') \<Longrightarrow> valid_score a' \<and> valid_score b'"
    and "try_evaluate resp a b = Inr (a', b', ex) \<Longrightarrow> valid_score a' \<and> valid_score b'"
  using assms read_result_range[OF assms]
  by (cases "(resp, a, b)" rule: try_evaluate.cases; auto)+

lemma attempt_loop_range:
  "valid_score a \<Longrightarrow> valid_score b \<Longrightarrow> attempt_loop llm p ks (a, b, ex) = (a', b', ex')
   \<Longrightarrow> valid_score a' \<and> valid_score b'"
proof (induction ks arbitrary: a b ex)
  case Nil
  then show ?case by simp
next
  case (Cons k ks)
  show ?case
  proof (cases "try_evaluate (llm p k) a b")
    case (Inl ab)
    obtain t1 t2 where ab: "ab = (t1, t2)" by (cases ab) auto
    with Inl try_evaluate_range(1)[OF Cons.prems(1,2)] have "valid_score t1 \<and> valid_score t2"
      by blast
    with Cons.IH[of t1 t2] Cons.prems(3) Inl ab show ?thesis by simp
  next
    case (Inr r)
    with Cons.prems(3) have "try_evaluate (llm p k) a b = Inr (a', b', ex')" by simp
    with try_evaluate_range(2)[OF Cons.prems(1,2)] show ?thesis by blast
  qed
qed

text \<open>When every attempt raises in the backend or in the parser, the loop leaves the
  default scores and the rationale of a failed evaluation.\<close>

lemma attempt_loop_all_fail:
  assumes "\<forall>k<3. llm p k = Raises \<or> llm p k = BadJson"
  shows "attempt_loop llm p [0..<3] (25, 25, JStr ''Default score'')
           = (25, 25, JStr ''Failed to evaluate round'')"
proof -
  from assms have "llm p 0 = Raises \<or> llm p 0 = BadJson" "llm p 1 = Raises \<or> llm p 1 = BadJson"
    "llm p 2 = Raises \<or> llm p 2 = BadJson" by simp_all
  then show ?thesis unfolding range3 by auto
qed

lemma py_int_nonneg: "0 \<le> x \<Longrightarrow> 0 \<le> py_int x"
  by (simp add: py_int_def)

lemma apply_penalty_range:
  assumes "valid_score a" "valid_score b" "apply_penalty st (a, b, ex) = Inr (a', b', ex')"
  shows "valid_score a' \<and> valid_score b'"
proof -
  have "0 \<le> py_int (\<bar>time_remaining st\<bar> / 30)" by (rule py_int_nonneg) simp
  with assms show ?thesis
    by (auto simp: apply_penalty_def valid_score_def Let_def split: sum.splits if_splits)
qed

lemma evaluate_round_shape:
  assumes "evaluate_round llm rn trs w = Inr (a, b, w1)"
  shows "valid_score a \<and> valid_score b \<and>
         (\<exists>ex. w1 = w\<lparr>score_history := score_history w
                   @ [\<lparr>sr_round = rn, sr_T1_score = a, sr_T2_score = b, sr_explanation = ex\<rparr>]\<rparr>)"
proof -
  obtain s1 s2 ex0 where loop:
    "attempt_loop llm (build_prompt rn trs) [0..<3] (25, 25, JStr ''Default score'') = (s1, s2, ex0)"
    by (metis prod_cases3)
  have v: "valid_score s1 \<and> valid_score s2"
    by (rule attempt_loop_range[OF _ _ loop]) (simp_all add: valid_score_def)
  from assms loop obtain ex where pen: "apply_penalty (state w) (s1, s2, ex0) = Inr (a, b, ex)"
    and w1: "w1 = w\<lparr>score_history := score_history w
                   @ [\<lparr>sr_round = rn, sr_T1_score = a, sr_T2_score = b, sr_explanation = ex\<rparr>]\<rparr>"
    by (auto simp: evaluate_round_def split: sum.splits)
  from apply_penalty_range[OF _ _ pen] v w1 show ?thesis by blast
qed

lemma evaluate_round_raises_at_end:
  "round_index (state w) = int (length ROUNDS) \<Longrightarrow> evaluate_round llm rn trs w = Inl IndexError"
  by (simp add: evaluate_round_def apply_penalty_def py_index_def split: prod.splits)

lemma score_round_raises_at_end:
  assumes "round_index (state w) = int (length ROUNDS)"
  shows "score_round llm w = (Some IndexError, w)"
proof -
  from assms obtain r where "py_index ROUNDS (round_index (state w) - 1) = Inr r"
    by (simp add: py_index_def length_ROUNDS)
  with assms show ?thesis
    by (cases r) (simp add: score_round_def evaluate_round_raises_at_end)
qed

lemma evaluate_round_within:
  assumes "0 \<le> round_index (state w)" and "round_index (state w) < int (length ROUNDS)"
    and "attempt_loop llm (build_prompt rn trs) [0..<3] (25, 25, JStr ''Default score'')
           = (a, b, JStr ex)"
  shows "evaluate_round llm rn trs w =
      (if fst (snd (ROUNDS ! nat (round_index (state w)))) = 180
               \<and> time_remaining (state w) < 0
       then Inr (max 21 (a - \<lfloor>\<bar>time_remaining (state w)\<bar> / 30\<rfloor>),
                 max 21 (b - \<lfloor>\<bar>time_remaining (state w)\<bar> / 30\<rfloor>),
                 w\<lparr>score_history := score_history w
                    @ [\<lparr>sr_round = rn,
                        sr_T1_score = max 21 (a - \<lfloor>\<bar>time_remaining (state w)\<bar> / 30\<rfloor>),
                        sr_T2_score = max 21 (b - \<lfloor>\<bar>time_remaining (state w)\<bar> / 30\<rfloor>),
                        sr_explanation
                          = JStr (ex @ penalty_note (\<bar>time_remaining (state w)\<bar> / 30))\<rparr>]\<rparr>)
       else Inr (a, b,
                 w\<lparr>score_history := score_history w
                    @ [\<lparr>sr_round = rn, sr_T1_score = a, sr_T2_score = b,
                        sr_explanation = JStr ex\<rparr>]\<rparr>))"
proof -
  from assms(1,2) have ix: "py_index ROUNDS (round_index (state w))
      = Inr (ROUNDS ! nat (round_index (state w)))"
    by (simp add: py_index_def)
  obtain nm d sp where r: "ROUNDS ! nat (round_index (state w)) = (nm, d, sp)"
    by (cases "ROUNDS ! nat (round_index (state w))") auto
  have f: "t < 0 \<Longrightarrow> py_int (- (t / 30)) = \<lfloor>- (t / 30)\<rfloor>" for t :: real
    by (simp add: py_int_def)
  from ix r assms(3) show ?thesis
    by (simp add: evaluate_round_def apply_penalty_def Let_def f)
qed

text \<open>When every attempt raises in the backend or in the parser, a round before the last
  one is judged 25 to 25 with the rationale of a failed evaluation, as long as the penalty
  test does not fire.\<close>

lemma score_round_all_attempts_fail:
  assumes "1 \<le> round_index (state w)" and "round_index (state w) < int (length ROUNDS)"
    and "\<forall>p. \<forall>k<3. llm p k = Raises \<or> llm p k = BadJson"
    and "scores (state w) ''T1'' = Some xs1" and "scores (state w) ''T2'' = Some xs2"
    and "\<not> (fst (snd (ROUNDS ! nat (round_index (state w)))) = 180
            \<and> time_remaining (state w) < 0)"
  shows "\<exists>rn w'. score_round llm w = (None, w') \<and>
           sent w' = sent w @ [(ScoresMsg rn 25 25 (JStr ''Failed to evaluate round''), None),
                               (ContinueDebate, Some ''moderator'')] \<and>
           scores (state w') = (scores (state w))(''T1'' \<mapsto> xs1 @ [25], ''T2'' \<mapsto> xs2 @ [25])"
proof -
  from assms(1,2) have "py_index ROUNDS (round_index (state w) - 1)
      = Inr (ROUNDS ! nat (round_index (state w) - 1))"
    by (simp add: py_index_def)
  moreover obtain rn d sp where "ROUNDS ! nat (round_index (state w) - 1) = (rn, d, sp)"
    by (cases "ROUNDS ! nat (round_index (state w) - 1)") auto
  ultimately have ix: "py_index ROUNDS (round_index (state w) - 1) = Inr (rn, d, sp)" by simp
  let ?trs = "case map_of (transcripts (state w)) rn of None \<Rightarrow> [] | Some t \<Rightarrow> t"
  from assms(3) have "attempt_loop llm (build_prompt rn ?trs) [0..<3] (25, 25, JStr ''Default score'')
           = (25, 25, JStr ''Failed to evaluate round'')"
    by (intro attempt_loop_all_fail) simp
  from evaluate_round_within[OF _ assms(2) this] assms(1,6)
  have ev: "evaluate_round llm rn ?trs w
     = Inr (25, 25, w\<lparr>score_history := score_history w
                    @ [\<lparr>sr_round = rn, sr_T1_score = 25, sr_T2_score = 25,
                        sr_explanation = JStr ''Failed to evaluate round''\<rparr>]\<rparr>)"
    by auto
  have "score_round llm w = (None,
       w\<lparr>state := (state w)\<lparr>scores := (scores (state w))
                                 (''T1'' \<mapsto> xs1 @ [25], ''T2'' \<mapsto> xs2 @ [25])\<rparr>,
         score_history := score_history w
                    @ [\<lparr>sr_round = rn, sr_T1_score = 25, sr_T2_score = 25,
                        sr_explanation = JStr ''Failed to evaluate round''\<rparr>],
         sent := sent w @ [(ScoresMsg rn 25 25 (JStr ''Failed to evaluate round''), None),
                               (ContinueDebate, Some ''moderator'')]\<rparr>)"
    using ix ev assms(4,5) by (simp add: score_round_def append_score_def send_def)
  then show ?thesis by fastforce
qed

lemma score_round_cases:
  assumes "score_round llm w = (e, w')"
  shows "(e \<noteq> None \<and> w' = w)
       \<or> (\<exists>rn a b ex. valid_score a \<and> valid_score b \<and>
            ((e = Some KeyError \<and> scores (state w) ''T1'' = None \<and>
              w' = w\<lparr>score_history := score_history w
                   @ [\<lparr>sr_round = rn, sr_T1_score = a, sr_T2_score = b, sr_explanation = ex\<rparr>]\<rparr>)
           \<or> (\<exists>xs1. e = Some KeyError \<and> scores (state w) ''T1'' = Some xs1 \<and>
                 scores (state w) ''T2'' = None \<and>
              w' = w\<lparr>state := (state w)\<lparr>scores := (scores (state w))(''T1'' \<mapsto> xs1 @ [a])\<rparr>,
                     score_history := score_history w
                   @ [\<lparr>sr_round = rn, sr_T1_score = a, sr_T2_score = b, sr_explanation = ex\<rparr>]\<rparr>)
           \<or> (\<exists>xs1 xs2. e = None \<and> scores (state w) ''T1'' = Some xs1 \<and>
                 scores (state w) ''T2'' = Some xs2 \<and>
              w' = w\<lparr>state := (state w)\<lparr>scores := (scores (state w))
                                          (''T1'' \<mapsto> xs1 @ [a], ''T2'' \<mapsto> xs2 @ [b])\<rparr>,
                     score_history := score_history w
                   @ [\<lparr>sr_round = rn, sr_T1_score = a, sr_T2_score = b, sr_explanation = ex\<rparr>],
                     sent := sent w @ [(ScoresMsg rn a b ex, None),
                                       (ContinueDebate, Some ''moderator'')]\<rparr>)))"
proof (cases "py_index ROUNDS (round_index (state w) - 1)")
  case (Inl err)
  with assms have "e \<noteq> None \<and> w' = w" by (auto simp: score_round_def)
  then show ?thesis by blast
next
  case (Inr r)
  obtain rn d sp where r: "r = (rn, d, sp)" by (cases r) auto
  let ?trs = "case map_of (transcripts (state w)) rn of None \<Rightarrow> [] | Some t \<Rightarrow> t"
  show ?thesis
  proof (cases "evaluate_round llm rn ?trs w")
    case (Inl err)
    with assms Inr r have "e \<noteq> None \<and> w' = w" by (auto simp: score_round_def)
    then show ?thesis by blast
  next
    case ev: (Inr res)
    obtain a b w1 where res: "res = (a, b, w1)" by (cases res) auto
    from evaluate_round_shape[of llm rn ?trs w a b w1] ev res obtain ex where
      v: "valid_score a" "valid_score b" and
      w1: "w1 = w\<lparr>score_history := score_history w
                   @ [\<lparr>sr_round = rn, sr_T1_score = a, sr_T2_score = b, sr_explanation = ex\<rparr>]\<rparr>"
      by auto
    from assms Inr r ev res
    have sr: "(e, w') = (case append_score ''T1'' a w1 of
                  Inl e \<Rightarrow> (Some e, w1)
                | Inr w2 \<Rightarrow>
                    (case append_score ''T2'' b w2 of
                       Inl e \<Rightarrow> (Some e, w2)
                     | Inr w3 \<Rightarrow>
                         (None,
                          send ContinueDebate (Some ''moderator'')
                            (send (ScoresMsg rn a b
                                     (sr_explanation (last (score_history w3)))) None w3))))"
      by (simp add: score_round_def)
    show ?thesis
    proof (cases "scores (state w) ''T1''")
      case None
      with sr w1 have "e = Some KeyError \<and> w' = w1" by (simp add: append_score_def)
      with None v w1 show ?thesis by blast
    next
      case (Some xs1)
      show ?thesis
      proof (cases "scores (state w) ''T2''")
        case None
        with sr w1 Some have "e = Some KeyError \<and>
           w' = w\<lparr>state := (state w)\<lparr>scores := (scores (state w))(''T1'' \<mapsto> xs1 @ [a])\<rparr>,
                     score_history := score_history w
                   @ [\<lparr>sr_round = rn, sr_T1_score = a, sr_T2_score = b, sr_explanation = ex\<rparr>]\<rparr>"
          by (simp add: append_score_def)
        with None Some v show ?thesis by blast
      next
        case T2: (Some xs2)
        with sr w1 Some have "e = None \<and>
              w' = w\<lparr>state := (state w)\<lparr>scores := (scores (state w))
                                          (''T1'' \<mapsto> xs1 @ [a], ''T2'' \<mapsto> xs2 @ [b])\<rparr>,
                     score_history := score_history w
                   @ [\<lparr>sr_round = rn, sr_T1_score = a, sr_T2_score = b, sr_explanation = ex\<rparr>],
                     sent := sent w @ [(ScoresMsg rn a b ex, None),
                                       (ContinueDebate, Some ''moderator'')]\<rparr>"
          by (simp add: append_score_def send_def)
        with T2 Some v show ?thesis by blast
      qed
    qed
  qed
qed

lemma finalize_scores_frame:
  "finalize_scores w = (e, w') \<Longrightarrow>
   \<exists>msgs f b. w' = w\<lparr>files := f, sent := sent w @ msgs, room_deleted := b\<rparr> \<and>
     (\<forall>m\<in>set msgs. message_scores (fst m) = []) \<and> filter is_score_signal msgs = []"
proof (cases "scores (state w) ''T1'' = None \<or> scores (state w) ''T2'' = None")
  case True
  assume "finalize_scores w = (e, w')"
  with True have "w' = w\<lparr>files := files w, sent := sent w @ [], room_deleted := room_deleted w\<rparr>"
    by (auto simp: finalize_scores_def split: option.splits)
  then show ?thesis by (metis empty_iff filter.simps(1) list.set(1))
next
  case False
  then obtain xs1 xs2 where s: "scores (state w) ''T1'' = Some xs1" "scores (state w) ''T2'' = Some xs2"
    by auto
  define fb where "fb = make_feedback (average xs1) (average xs2) (score_history w)"
  assume "finalize_scores w = (e, w')"
  with s have "w' = w\<lparr>files := (files w)(results_file (room_id (state w)) \<mapsto> [ResultsRec fb]),
                     sent := sent w @ [(FinalResults (fb_winner fb) (fb_T1_avg_score fb)
                                 (fb_T2_avg_score fb) fb, None)],
                     room_deleted := True\<rparr>"
    by (simp add: finalize_scores_def Let_def send_def fb_def)
  then show ?thesis
    by (rule_tac x="[(FinalResults (fb_winner fb) (fb_T1_avg_score fb)
                                 (fb_T2_avg_score fb) fb, None)]" in exI)
       (auto simp: is_score_signal_def)
qed

lemma of_int_sum_list_real: "real_of_int (sum_list xs) = (\<Sum>x\<leftarrow>xs. real_of_int x)"
  by (induction xs) simp_all

lemma spec_mean_average: "average xs = spec_mean xs"
  by (simp add: average_def spec_mean_def of_int_sum_list_real)

subsection \<open>Debates\<close>

lemma run_preserves:
  assumes "\<And>ev s s'. I s \<Longrightarrow> step ev s = Some s' \<Longrightarrow> I s'"
  shows "I s \<Longrightarrow> run evs s = Some s' \<Longrightarrow> I s'"
proof (induction evs arbitrary: s)
  case Nil
  then show ?case by simp
next
  case (Cons ev evs)
  from Cons.prems(2) obtain s1 where 1: "step ev s = Some s1" and 2: "run evs s1 = Some s'"
    by (auto split: option.splits)
  from assms[OF Cons.prems(1) 1] have "I s1" .
  from Cons.IH[OF this 2] show ?case .
qed


lemma scores_in_range_iff:
  "scores_in_range w \<longleftrightarrow>
     (\<forall>xs. scores (state w) ''T1'' = Some xs \<longrightarrow> (\<forall>s\<in>set xs. valid_score s)) \<and>
     (\<forall>xs. scores (state w) ''T2'' = Some xs \<longrightarrow> (\<forall>s\<in>set xs. valid_score s)) \<and>
     (\<forall>r\<in>set (score_history w). valid_score (sr_T1_score r) \<and> valid_score (sr_T2_score r)) \<and>
     (\<forall>m\<in>set (sent w). \<forall>s\<in>set (message_scores (fst m)). valid_score s)"
  by (cases "scores (state w) ''T1''"; cases "scores (state w) ''T2''")
     (auto simp: scores_in_range_def team_scores_def)

lemma step_scores_in_range:
  assumes "scores_in_range (fst s)" "step ev s = Some s'"
  shows "scores_in_range (fst s')"
proof -
  obtain w handled where s: "s = (w, handled)" by (cases s) auto
  from assms(1) s have inv: "scores_in_range w" by simp
  show ?thesis
  proof (cases ev)
    case (Continue clock)
    with assms s obtain e w' where r: "start_round clock w = Some (e, w')" and s': "s' = (w', handled)"
      by (auto split: option.splits)
    from start_round_frame[OF r] obtain t k msgs where
      "w' = w\<lparr>state := (state w)\<lparr>round_index := round_index (state w) + int k,
                                     time_remaining := t\<rparr>,
                   sent := sent w @ msgs\<rparr>" "\<forall>m\<in>set msgs. message_scores (fst m) = []"
      by blast
    with inv s' show ?thesis
      by (fastforce simp: scores_in_range_iff)
  next
    case (Prep team clock)
    with assms s obtain e w' where r: "request_prep_time team clock w = Some (e, w')"
      and s': "s' = (w', handled)"
      by (auto split: option.splits)
    from request_prep_time_frame[OF r] obtain t k p msgs where
      "w' = w\<lparr>state := (state w)\<lparr>round_index := round_index (state w) + int k,
                                     time_remaining := t, prep_time := p\<rparr>,
                   sent := sent w @ msgs\<rparr>" "\<forall>m\<in>set msgs. message_scores (fst m) = []"
      by blast
    with inv s' show ?thesis
      by (fastforce simp: scores_in_range_iff)
  next
    case (Utterance speaker utt)
    with assms s have s': "s' = (snd (receive_transcript speaker utt w), handled)" by simp
    from receive_transcript_frame[of speaker utt w "fst (receive_transcript speaker utt w)"
        "snd (receive_transcript speaker utt w)"] inv s'
    show ?thesis
      by (fastforce simp: scores_in_range_iff)
  next
    case (Score llm)
    with assms s have s': "s' = (snd (score_round llm w), Suc handled)"
      by (auto split: if_splits)
    from score_round_cases[of llm w "fst (score_round llm w)" "snd (score_round llm w)"]
      inv s'
    show ?thesis
      by (fastforce simp: scores_in_range_iff)
  next
    case Finalize
    with assms s have s': "s' = (snd (finalize_scores w), handled)" by simp
    from finalize_scores_frame[of w "fst (finalize_scores w)" "snd (finalize_scores w)"]
    obtain msgs f b where "snd (finalize_scores w) = w\<lparr>files := f, sent := sent w @ msgs, room_deleted := b\<rparr>"
      "\<forall>m\<in>set msgs. message_scores (fst m) = []" by auto
    with inv s' show ?thesis
      by (fastforce simp: scores_in_range_iff)
  qed
qed



text \<open>In every state a debate reaches with backends whose numbers are integers, the
  scores held, recorded and broadcast lie in the range.\<close>

lemma debate_scores_in_range:
  assumes "debate room md swapped pick clock evs = Some s"
  shows "scores_in_range (fst s)"
proof -
  from assms obtain e w0 where i: "initialize_debate swapped pick clock (initial_world room md) = Some (e, w0)"
    and r: "run evs (w0, 0) = Some s"
    by (auto simp: debate_def split: option.splits)
  from initialize_debate_frame[OF i] have "scores_in_range (fst (w0, 0::nat))"
    by (simp add: scores_in_range_def team_scores_def)
  from run_preserves[of "\<lambda>s. scores_in_range (fst s)", OF step_scores_in_range this r]
  show ?thesis .
qed






section \<open>The claims\<close>

subsection \<open>C1: the shortfall penalty after a round of 180 seconds\<close>

text \<open>
  C1 states that \<^verbatim>\<open>evaluate_round\<close> subtracts \<open>\<lfloor>|time_remaining| / 30\<rfloor>\<close> points from
  each score, with a floor of 21, and appends a penalty note, when the round just
  completed lasts 180 seconds and \<^verbatim>\<open>time_remaining\<close> is negative at its end; for
  \<open>- 45\<close> the penalty is 1 point for each team.

  The code tests the duration of \<^verbatim>\<open>ROUNDS[state.round_index]\<close> after the moderator has
  incremented \<^verbatim>\<open>round_index\<close>, which is the duration of the round that follows. The
  run below is the round \<^verbatim>\<open>crossfire_ac\<close> (index 2, 180 seconds) whose countdown
  ends 45 seconds late, judged by a backend that returns no text: the judge records
  25 and 25 with no penalty note, where C1 gives 24 and 24.
\<close>

theorem C1_penalty_skipped:
  "\<exists>w3 w4. start_round [0, 100, 225] (world_at ''multi'' 2 0) = Some (None, w3) \<and>
      round_index (state w3) = 3 \<and> time_remaining (state w3) = - 45 \<and>
      score_round (\<lambda>p k. NoText) w3 = (None, w4) \<and>
      scores (state w4) ''T1'' = Some [25] \<and> scores (state w4) ''T2'' = Some [25] \<and>
      score_history w4 = [\<lparr>sr_round = ''crossfire_ac'', sr_T1_score = 25, sr_T2_score = 25,
                           sr_explanation = JStr ''No explanation provided''\<rparr>]"
proof -
  have "case start_round [0, 100, 225] (world_at ''multi'' 2 0) of
          Some (None, w3) \<Rightarrow>
            round_index (state w3) = 3 \<and> time_remaining (state w3) = - 45 \<and>
            (case score_round (\<lambda>p k. NoText) w3 of
               (None, w4) \<Rightarrow>
                 scores (state w4) ''T1'' = Some [25] \<and> scores (state w4) ''T2'' = Some [25] \<and>
                 score_history w4 = [\<lparr>sr_round = ''crossfire_ac'', sr_T1_score = 25,
                        sr_T2_score = 25, sr_explanation = JStr ''No explanation provided''\<rparr>]
             | _ \<Rightarrow> False)
        | _ \<Rightarrow> False"
    by code_simp
  then show ?thesis
    by (auto split: option.splits prod.splits)
qed

subsection \<open>C2: judged scores lie between 21 and 30\<close>

text \<open>
  C2 states that, whatever the backend returns, the scores that \<^verbatim>\<open>score_round\<close>
  appends to the score history and to each team's list, and broadcasts in the
  \<^verbatim>\<open>scores\<close> message, lie in the closed interval from 21 to 30.

  The code bounds the scores by \<^verbatim>\<open>min(max(v, 21), 30)\<close>, and every comparison with
  \<^verbatim>\<open>NaN\<close> is false: for the response text \<^verbatim>\<open>{"T1": NaN}\<close>, which \<^verbatim>\<open>json.loads\<close>
  accepts, \<^verbatim>\<open>max(NaN, 21)\<close> is \<^verbatim>\<open>NaN\<close> and \<^verbatim>\<open>min(NaN, 30)\<close> is \<^verbatim>\<open>NaN\<close>. The
  clamp lets \<^verbatim>\<open>NaN\<close> through, and \<^verbatim>\<open>NaN\<close> is the score recorded, appended and
  broadcast. It is the only number that passes (\<open>clamp_number_in_range\<close>).
\<close>

theorem C2_clamp_passes_nan:
  "clamp_number PNaN = PNaN \<and> \<not> num_in_range (clamp_number PNaN)"
  by (simp add: clamp_number_def py_max_def py_min_def num_in_range_def)

text \<open>
  When the numbers of the backend are integers, as they are in the worlds of this model,
  the scores do lie in the interval, for every backend, every world and every way
  \<^verbatim>\<open>score_round\<close> ends: \<open>hist\<close>, \<open>t1\<close>, \<open>t2\<close> and \<open>msgs\<close> are what the call
  added.
\<close>

lemma score_round_integer_scores_in_range:
  assumes "score_round llm w = (e, w')"
  shows "\<exists>hist t1 t2 msgs.
           score_history w' = score_history w @ hist \<and>
           team_scores w' ''T1'' = team_scores w ''T1'' @ t1 \<and>
           team_scores w' ''T2'' = team_scores w ''T2'' @ t2 \<and>
           sent w' = sent w @ msgs \<and>
           (\<forall>r\<in>set hist. 21 \<le> sr_T1_score r \<and> sr_T1_score r \<le> 30 \<and>
                          21 \<le> sr_T2_score r \<and> sr_T2_score r \<le> 30) \<and>
           (\<forall>s\<in>set (t1 @ t2). 21 \<le> s \<and> s \<le> 30) \<and>
           (\<forall>m\<in>set msgs. \<forall>s\<in>set (message_scores (fst m)). 21 \<le> s \<and> s \<le> 30)"
  using score_round_cases[OF assms]
proof (elim disjE conjE exE)
  assume "w' = w"
  then have "score_history w' = score_history w @ [] \<and>
           team_scores w' ''T1'' = team_scores w ''T1'' @ [] \<and>
           team_scores w' ''T2'' = team_scores w ''T2'' @ [] \<and>
           sent w' = sent w @ []" by simp
  then show ?thesis by fastforce
next
  fix rn a b ex
  assume v: "valid_score a" "valid_score b"
    and n: "scores (state w) ''T1'' = None"
    and w': "w' = w\<lparr>score_history := score_history w
                   @ [\<lparr>sr_round = rn, sr_T1_score = a, sr_T2_score = b, sr_explanation = ex\<rparr>]\<rparr>"
  let ?h = "[\<lparr>sr_round = rn, sr_T1_score = a, sr_T2_score = b, sr_explanation = ex\<rparr>]"
  from w' have "score_history w' = score_history w @ ?h \<and>
           team_scores w' ''T1'' = team_scores w ''T1'' @ [] \<and>
           team_scores w' ''T2'' = team_scores w ''T2'' @ [] \<and>
           sent w' = sent w @ []" by (simp add: team_scores_def)
  moreover from v have "\<forall>r\<in>set ?h. 21 \<le> sr_T1_score r \<and> sr_T1_score r \<le> 30 \<and>
                          21 \<le> sr_T2_score r \<and> sr_T2_score r \<le> 30"
    by (simp add: valid_score_def)
  ultimately show ?thesis by fastforce
next
  fix rn a b ex xs1
  assume v: "valid_score a" "valid_score b"
    and s: "scores (state w) ''T1'' = Some xs1" "scores (state w) ''T2'' = None"
    and w': "w' = w\<lparr>state := (state w)\<lparr>scores := (scores (state w))(''T1'' \<mapsto> xs1 @ [a])\<rparr>,
                     score_history := score_history w
                   @ [\<lparr>sr_round = rn, sr_T1_score = a, sr_T2_score = b, sr_explanation = ex\<rparr>]\<rparr>"
  let ?h = "[\<lparr>sr_round = rn, sr_T1_score = a, sr_T2_score = b, sr_explanation = ex\<rparr>]"
  from w' s have "score_history w' = score_history w @ ?h \<and>
           team_scores w' ''T1'' = team_scores w ''T1'' @ [a] \<and>
           team_scores w' ''T2'' = team_scores w ''T2'' @ [] \<and>
           sent w' = sent w @ []" by (simp add: team_scores_def)
  moreover from v have "\<forall>r\<in>set ?h. 21 \<le> sr_T1_score r \<and> sr_T1_score r \<le> 30 \<and>
                          21 \<le> sr_T2_score r \<and> sr_T2_score r \<le> 30"
    "\<forall>s\<in>set ([a] @ []). 21 \<le> s \<and> s \<le> 30"
    by (simp_all add: valid_score_def)
  ultimately show ?thesis by fastforce
next
  fix rn a b ex xs1 xs2
  assume v: "valid_score a" "valid_score b"
    and s: "scores (state w) ''T1'' = Some xs1" "scores (state w) ''T2'' = Some xs2"
    and w': "w' = w\<lparr>state := (state w)\<lparr>scores := (scores (state w))
                                          (''T1'' \<mapsto> xs1 @ [a], ''T2'' \<mapsto> xs2 @ [b])\<rparr>,
                     score_history := score_history w
                   @ [\<lparr>sr_round = rn, sr_T1_score = a, sr_T2_score = b, sr_explanation = ex\<rparr>],
                     sent := sent w @ [(ScoresMsg rn a b ex, None),
                                       (ContinueDebate, Some ''moderator'')]\<rparr>"
  let ?h = "[\<lparr>sr_round = rn, sr_T1_score = a, sr_T2_score = b, sr_explanation = ex\<rparr>]"
  let ?m = "[(ScoresMsg rn a b ex, None), (ContinueDebate, Some ''moderator'')]"
  from w' s have "score_history w' = score_history w @ ?h \<and>
           team_scores w' ''T1'' = team_scores w ''T1'' @ [a] \<and>
           team_scores w' ''T2'' = team_scores w ''T2'' @ [b] \<and>
           sent w' = sent w @ ?m" by (simp add: team_scores_def)
  moreover from v have "\<forall>r\<in>set ?h. 21 \<le> sr_T1_score r \<and> sr_T1_score r \<le> 30 \<and>
                          21 \<le> sr_T2_score r \<and> sr_T2_score r \<le> 30"
    "\<forall>s\<in>set ([a] @ [b]). 21 \<le> s \<and> s \<le> 30"
    "\<forall>m\<in>set ?m. \<forall>s\<in>set (message_scores (fst m)). 21 \<le> s \<and> s \<le> 30"
    by (simp_all add: valid_score_def)
  ultimately show ?thesis by blast
qed

text \<open>The integers 99 and \<open>- 7\<close> are recorded as 30 and 21.\<close>

lemma score_round_integer_scores_example:
  "\<exists>w'. score_round (\<lambda>p k. Parsed (JObj [(''T1'', JInt 99), (''T2'', JInt (- 7))]))
           (world_at ''multi'' 1 0) = (None, w') \<and>
     team_scores w' ''T1'' = [30] \<and> team_scores w' ''T2'' = [21] \<and>
     (\<forall>r\<in>set (score_history w'). 21 \<le> sr_T1_score r \<and> sr_T1_score r \<le> 30 \<and>
                          21 \<le> sr_T2_score r \<and> sr_T2_score r \<le> 30)"
proof -
  let ?llm = "\<lambda>p k. Parsed (JObj [(''T1'', JInt 99), (''T2'', JInt (- 7))])"
  let ?w = "world_at ''multi'' 1 0"
  have "case score_round ?llm ?w of
          (None, w') \<Rightarrow> team_scores w' ''T1'' = [30] \<and> team_scores w' ''T2'' = [21]
        | _ \<Rightarrow> False"
    by code_simp
  then obtain w' where r: "score_round ?llm ?w = (None, w')"
    and t: "team_scores w' ''T1'' = [30]" "team_scores w' ''T2'' = [21]"
    by (auto split: option.splits prod.splits)
  have "score_history ?w = []" by (simp add: world_at_def initial_world_def)
  with score_round_integer_scores_in_range[OF r] have
    "\<forall>r\<in>set (score_history w'). 21 \<le> sr_T1_score r \<and> sr_T1_score r \<le> 30 \<and>
                          21 \<le> sr_T2_score r \<and> sr_T2_score r \<le> 30"
    by auto
  with r t show ?thesis by blast
qed

subsection \<open>C3: the penalty test reads the round at the current index\<close>

text \<open>
  C3: when a round is scored, \<^verbatim>\<open>round_index\<close> has been incremented, and the penalty test
  of \<^verbatim>\<open>evaluate_round\<close> reads \<^verbatim>\<open>ROUNDS\<close> at \<^verbatim>\<open>round_index\<close>, not at
  \<^verbatim>\<open>round_index - 1\<close>: the duration it compares with 180 is that of the following
  round, and when the last of the 11 rounds is scored (\<^verbatim>\<open>round_index\<close> is 11) the
  index is out of range and \<^verbatim>\<open>evaluate_round\<close>, and with it \<^verbatim>\<open>score_round\<close>, raises
  \<^verbatim>\<open>IndexError\<close>. The theorem gives the result of \<^verbatim>\<open>evaluate_round\<close> for every
  \<^verbatim>\<open>round_index\<close> from 1 to 11 when the rationale left by the attempts is a string.
\<close>

theorem C3_penalty_indexes_current_round:
  assumes "1 \<le> round_index (state w)" and "round_index (state w) \<le> int (length ROUNDS)"
    and "attempt_loop llm (build_prompt rn trs) [0..<3] (25, 25, JStr ''Default score'')
           = (a, b, JStr ex)"
  shows "evaluate_round llm rn trs w =
      (if round_index (state w) = int (length ROUNDS) then Inl IndexError
       else if fst (snd (ROUNDS ! nat (round_index (state w)))) = 180
               \<and> time_remaining (state w) < 0
       then Inr (max 21 (a - \<lfloor>\<bar>time_remaining (state w)\<bar> / 30\<rfloor>),
                 max 21 (b - \<lfloor>\<bar>time_remaining (state w)\<bar> / 30\<rfloor>),
                 w\<lparr>score_history := score_history w
                    @ [\<lparr>sr_round = rn,
                        sr_T1_score = max 21 (a - \<lfloor>\<bar>time_remaining (state w)\<bar> / 30\<rfloor>),
                        sr_T2_score = max 21 (b - \<lfloor>\<bar>time_remaining (state w)\<bar> / 30\<rfloor>),
                        sr_explanation
                          = JStr (ex @ penalty_note (\<bar>time_remaining (state w)\<bar> / 30))\<rparr>]\<rparr>)
       else Inr (a, b,
                 w\<lparr>score_history := score_history w
                    @ [\<lparr>sr_round = rn, sr_T1_score = a, sr_T2_score = b,
                        sr_explanation = JStr ex\<rparr>]\<rparr>))
     \<and> (round_index (state w) = int (length ROUNDS) \<longrightarrow>
          score_round llm w = (Some IndexError, w))"
proof (cases "round_index (state w) = int (length ROUNDS)")
  case True
  then show ?thesis
    by (simp add: evaluate_round_raises_at_end score_round_raises_at_end)
next
  case False
  with assms(1,2) have "0 \<le> round_index (state w)" "round_index (state w) < int (length ROUNDS)"
    by simp_all
  from evaluate_round_within[OF this assms(3)] False show ?thesis by simp
qed

text \<open>After \<^verbatim>\<open>rebuttal_d\<close> (index 4, 240 seconds) the index is 5, the round read is
  \<^verbatim>\<open>crossfire_bd\<close> (180 seconds), and a remaining time of \<open>- 45\<close> costs one point.\<close>

theorem C3_witness:
  "evaluate_round (\<lambda>p k. NoText) ''rebuttal_d'' []
     ((initial_world ''room'' ''multi'')
        \<lparr>state := (state (initial_world ''room'' ''multi''))
                    \<lparr>round_index := 5, time_remaining := - 45\<rparr>\<rparr>)
   = Inr (24, 24,
       (initial_world ''room'' ''multi'')
        \<lparr>state := (state (initial_world ''room'' ''multi''))
                    \<lparr>round_index := 5, time_remaining := - 45\<rparr>,
          score_history := [\<lparr>sr_round = ''rebuttal_d'', sr_T1_score = 24, sr_T2_score = 24,
             sr_explanation = JStr (''No explanation provided'' @ penalty_note (45 / 30))\<rparr>]\<rparr>)"
proof -
  let ?w = "(initial_world ''room'' ''multi'')
        \<lparr>state := (state (initial_world ''room'' ''multi''))
                    \<lparr>round_index := 5, time_remaining := - 45\<rparr>\<rparr>"
  have 1: "1 \<le> round_index (state ?w)" "round_index (state ?w) \<le> int (length ROUNDS)"
    by (simp_all add: length_ROUNDS)
  have 2: "attempt_loop (\<lambda>p k. NoText) (build_prompt ''rebuttal_d'' []) [0..<3]
             (25, 25, JStr ''Default score'') = (25, 25, JStr ''No explanation provided'')"
    by (simp add: range3 read_result_def dict_get_def)
  have 3: "fst (snd (ROUNDS ! nat 5)) = 180" "score_history (initial_world ''room'' ''multi'') = []"
    by (simp_all add: ROUNDS_def initial_world_def)
  from C3_penalty_indexes_current_round[OF 1 2] 3 show ?thesis
    by (simp add: length_ROUNDS)
qed

subsection \<open>C4: judging when the backend fails three times\<close>

text \<open>
  C4 states that when the backend fails on all three attempts \<^verbatim>\<open>score_round\<close> still
  completes and emits the scores 25 and 25 with the rationale
  \<^verbatim>\<open>Failed to evaluate round\<close>, so that judging never aborts the debate.

  The attempts do leave 25, 25 and that rationale, and every round before the last is
  judged so (\<open>score_round_all_attempts_fail\<close>). But when the last round of the
  default sequence is judged, \<^verbatim>\<open>round_index\<close> is 11 and the penalty test of
  \<^verbatim>\<open>evaluate_round\<close> raises \<^verbatim>\<open>IndexError\<close> outside the \<^verbatim>\<open>try\<close>: \<^verbatim>\<open>score_round\<close> ends with the exception, no score is appended and no
  \<^verbatim>\<open>scores\<close> or \<^verbatim>\<open>continue_debate\<close> message is sent. The run below is the round
  \<^verbatim>\<open>final_focus_d\<close> (index 10) followed by its judging with a backend that raises
  at each attempt.
\<close>

theorem C4_final_round_raises:
  "\<exists>w11. start_round [0, 60, 120] (world_at ''multi'' 10 0) = Some (None, w11) \<and>
      round_index (state w11) = 11 \<and>
      score_round (\<lambda>p k. Raises) w11 = (Some IndexError, w11)"
proof -
  have "case start_round [0, 60, 120] (world_at ''multi'' 10 0) of
          Some (None, w11) \<Rightarrow> round_index (state w11) = 11
        | _ \<Rightarrow> False"
    by code_simp
  then obtain w11 where 1: "start_round [0, 60, 120] (world_at ''multi'' 10 0) = Some (None, w11)"
    and 2: "round_index (state w11) = 11"
    by (auto split: option.splits prod.splits)
  from 2 have "score_round (\<lambda>p k. Raises) w11 = (Some IndexError, w11)"
    by (intro score_round_raises_at_end) (simp add: length_ROUNDS)
  with 1 2 show ?thesis by blast
qed

subsection \<open>C5: transcripts are cut to 1000 characters\<close>

text \<open>
  C5 states that \<^verbatim>\<open>receive_transcript\<close> cuts the text to its first 1000 characters
  both in the list of utterances of the round and speaker and in the record appended
  to the round's file. In the code the file receives \<^verbatim>\<open>{speaker: text}\<close> with the
  text as it came: an utterance of 1001 characters is persisted with its 1001
  characters.
\<close>

theorem C5_persisted_untruncated:
  "file_records (snd (receive_transcript ''C'' (replicate 1001 (CHR ''a''))
                       (initial_world ''room'' ''multi'')))
       (transcript_file ''room'' ''constructive_a'')
     = [TranscriptRec ''C'' (replicate 1001 (CHR ''a''))] \<and>
   file_records (snd (receive_transcript ''C'' (replicate 1001 (CHR ''a''))
                       (initial_world ''room'' ''multi'')))
       (transcript_file ''room'' ''constructive_a'')
     \<noteq> [TranscriptRec ''C'' (take 1000 (replicate 1001 (CHR ''a'')))]"
  by (simp add: receive_transcript_def py_index_def ROUNDS_def initial_world_def Let_def
      append_file_def file_records_def)

text \<open>
  C5 as amended: for an utterance received while \<^verbatim>\<open>round_index\<close> addresses a round of
  the default sequence, \<^verbatim>\<open>receive_transcript\<close> appends the first 1000 characters of the
  text to the list of utterances of that round and speaker, so that a text longer than
  1000 characters is held with exactly 1000 characters, leaves every other list as it
  is, and appends to the round's file a record holding the speaker and the whole text.
\<close>

theorem C5_receive_transcript:
  assumes "py_index ROUNDS (round_index (state w)) = Inr (rn, d, sp)"
  shows "\<exists>w'. receive_transcript speaker utt w = (None, w') \<and>
           utterances (state w') rn speaker = utterances (state w) rn speaker @ [take 1000 utt] \<and>
           length (take 1000 utt) = min 1000 (length utt) \<and>
           (1000 < length utt \<longrightarrow> length (last (utterances (state w') rn speaker)) = 1000) \<and>
           (\<forall>r s. (r, s) \<noteq> (rn, speaker) \<longrightarrow>
              utterances (state w') r s = utterances (state w) r s) \<and>
           file_records w' (transcript_file (room_id (state w)) rn)
             = file_records w (transcript_file (room_id (state w)) rn) @ [TranscriptRec speaker utt]"
  using assms
  by (auto simp: receive_transcript_def Let_def utterances_store append_file_def file_records_def
      min_def)

theorem C5_witness:
  "py_index ROUNDS (round_index (state (initial_world ''room'' ''multi'')))
     = Inr (''constructive_a'', 240, Single ''A'') \<and>
   utterances (state (snd (receive_transcript ''C'' (replicate 1001 (CHR ''a''))
                            (initial_world ''room'' ''multi'')))) ''constructive_a'' ''C''
     = [replicate 1000 (CHR ''a'')]"
proof -
  have h: "py_index ROUNDS (round_index (state (initial_world ''room'' ''multi'')))
     = Inr (''constructive_a'', 240, Single ''A'')"
    by (simp add: py_index_def ROUNDS_def initial_world_def)
  have "utterances (state (initial_world ''room'' ''multi'')) ''constructive_a'' ''C'' = []"
    by (simp add: utterances_def initial_world_def)
  with C5_receive_transcript[OF h, of "''C''" "replicate 1001 (CHR ''a'')"] h
  show ?thesis by auto
qed

subsection \<open>C6: requests for preparation time\<close>

text \<open>
  C6: \<^verbatim>\<open>request_prep_time\<close> for a team that is unknown, or whose budget is exhausted,
  only sends an announcement: nothing but the log of sent messages changes. Otherwise
  it takes \<open>min available 120\<close> seconds from the budget of that team and of no other;
  from a budget of 120 seconds the request leaves 0, and a second request is rejected
  by an announcement, nothing else changing.
\<close>

theorem C6_request_prep_time:
  "(prep_time (state w) team = None \<longrightarrow>
      request_prep_time team clock w
        = Some (None, w\<lparr>sent := sent w @ [(Announcement (''Invalid team: '' @ team), None)]\<rparr>)) \<and>
   (\<forall>available. prep_time (state w) team = Some available \<and> available \<le> 0 \<longrightarrow>
      request_prep_time team clock w
        = Some (None, w\<lparr>sent := sent w
             @ [(Announcement (''Team '' @ team @ '' has no prep time remaining.''), None)]\<rparr>)) \<and>
   (\<forall>available e w'.
      prep_time (state w) team = Some available \<and> 0 < available \<and>
      request_prep_time team clock w = Some (e, w') \<longrightarrow>
      prep_time (state w') = (prep_time (state w))(team \<mapsto> available - min available 120) \<and>
      (available = 120 \<longrightarrow>
         prep_time (state w') team = Some 0 \<and>
         (\<forall>clock'. request_prep_time team clock' w'
            = Some (None, w'\<lparr>sent := sent w'
                 @ [(Announcement (''Team '' @ team @ '' has no prep time remaining.''), None)]\<rparr>))))"
proof (intro conjI allI impI)
  assume "prep_time (state w) team = None"
  then show "request_prep_time team clock w
        = Some (None, w\<lparr>sent := sent w @ [(Announcement (''Invalid team: '' @ team), None)]\<rparr>)"
    by (simp add: request_prep_time_def announce_def send_def)
next
  fix available
  assume "prep_time (state w) team = Some available \<and> available \<le> 0"
  then show "request_prep_time team clock w
        = Some (None, w\<lparr>sent := sent w
             @ [(Announcement (''Team '' @ team @ '' has no prep time remaining.''), None)]\<rparr>)"
    by (simp add: request_prep_time_def announce_def send_def)
next
  fix available e w'
  assume "prep_time (state w) team = Some available \<and> 0 < available \<and>
      request_prep_time team clock w = Some (e, w')"
  then have a: "prep_time (state w) team = Some available" "0 < available"
      "request_prep_time team clock w = Some (e, w')" by simp_all
  define w3 where "w3 = w\<lparr>state := (state w)
        \<lparr>prep_time := (prep_time (state w))(team \<mapsto> available - min available 120)\<rparr>,
       sent := sent w @ [(Announcement (''Team '' @ team @ '' using ''
                               @ fmt_1f (min available (2 * 60) / 60) @ '' min of prep time.''), None),
                             (Announcement (''Prep time for Team '' @ team @ '' is over.''), None)]\<rparr>"
  from a have "start_round clock w3 = Some (e, w')"
    by (simp add: request_prep_time_def Let_def announce_def send_def w3_def)
  from start_round_frame[OF this]
  show p: "prep_time (state w') = (prep_time (state w))(team \<mapsto> available - min available 120)"
    by (auto simp: w3_def)
  {
    assume "available = 120"
    with p show z: "prep_time (state w') team = Some 0" by simp
    fix clock'
    from z show "request_prep_time team clock' w'
            = Some (None, w'\<lparr>sent := sent w'
                 @ [(Announcement (''Team '' @ team @ '' has no prep time remaining.''), None)]\<rparr>)"
      by (simp add: request_prep_time_def announce_def send_def)
  }
qed

text \<open>After \<^verbatim>\<open>initialize_debate\<close> both budgets are 120 seconds: the team \<^verbatim>\<open>T3\<close> is
  unknown, a first request of \<^verbatim>\<open>T1\<close> leaves it 0 seconds and \<^verbatim>\<open>T2\<close> its 120, and
  a second request of \<^verbatim>\<open>T1\<close> is rejected.\<close>

theorem C6_witness:
  "\<exists>w w'. initialize_debate False 0 [0, 240] (initial_world ''room'' ''multi'') = Some (None, w) \<and>
      prep_time (state w) ''T1'' = Some 120 \<and>
      request_prep_time ''T3'' [] w
        = Some (None, w\<lparr>sent := sent w @ [(Announcement ''Invalid team: T3'', None)]\<rparr>) \<and>
      request_prep_time ''T1'' [0, 240] w = Some (None, w') \<and>
      prep_time (state w') ''T1'' = Some 0 \<and>
      prep_time (state w') ''T2'' = Some 120 \<and>
      request_prep_time ''T1'' [] w'
        = Some (None, w'\<lparr>sent := sent w'
             @ [(Announcement ''Team T1 has no prep time remaining.'', None)]\<rparr>)"
proof -
  let ?i = "initialize_debate False 0 [0, 240] (initial_world ''room'' ''multi'')"
  have "case ?i of Some (None, w) \<Rightarrow> True | _ \<Rightarrow> False"
    by code_simp
  then obtain w where i: "?i = Some (None, w)"
    by (auto split: option.splits prod.splits)
  have "case ?i of
          Some (e, w) \<Rightarrow>
            (case request_prep_time ''T1'' [0, 240] w of Some (None, w') \<Rightarrow> True | _ \<Rightarrow> False)
        | None \<Rightarrow> False"
    by code_simp
  with i have "case request_prep_time ''T1'' [0, 240] w of Some (None, w') \<Rightarrow> True | _ \<Rightarrow> False"
    by simp
  then obtain w' where r: "request_prep_time ''T1'' [0, 240] w = Some (None, w')"
    by (auto split: option.splits prod.splits)
  from initialize_debate_frame[OF i] have p: "prep_time (state w) = [''T1'' \<mapsto> 120, ''T2'' \<mapsto> 120]"
    by simp
  then have p1: "prep_time (state w) ''T1'' = Some 120" "prep_time (state w) ''T3'' = None"
    by simp_all
  from C6_request_prep_time[of w "''T3''" "[]"] p1
  have 1: "request_prep_time ''T3'' [] w
        = Some (None, w\<lparr>sent := sent w @ [(Announcement ''Invalid team: T3'', None)]\<rparr>)"
    by simp
  from C6_request_prep_time[of w "''T1''" "[0, 240]"] p1 r
  have 2: "prep_time (state w') = (prep_time (state w))(''T1'' \<mapsto> 0)"
    "request_prep_time ''T1'' [] w'
        = Some (None, w'\<lparr>sent := sent w'
             @ [(Announcement ''Team T1 has no prep time remaining.'', None)]\<rparr>)"
    by auto
  from 2(1) p have "prep_time (state w') ''T1'' = Some 0" "prep_time (state w') ''T2'' = Some 120"
    by simp_all
  with i p1 1 r 2(2) show ?thesis by blast
qed

subsection \<open>C7: the final result\<close>

text \<open>
  C7: \<^verbatim>\<open>finalize_scores\<close> computes the arithmetic mean of each team's scores, 0 for an
  empty list, reports both means rounded to two decimals, and declares the team with the
  strictly higher mean the winner, \<^verbatim>\<open>Tie\<close> otherwise; two empty lists give the
  averages 0 and 0 and a tie, the lists \<open>[25]\<close> and \<open>[27]\<close> give the winner
  \<^verbatim>\<open>T2\<close> and the averages 25 and 27.
\<close>

theorem C7_finalize_scores:
  assumes "scores (state w) ''T1'' = Some xs1" and "scores (state w) ''T2'' = Some xs2"
  shows "\<exists>fb w'. finalize_scores w = (None, w') \<and>
           sent w' = sent w @ [(FinalResults (fb_winner fb) (fb_T1_avg_score fb)
                                  (fb_T2_avg_score fb) fb, None)] \<and>
           files w' (results_file (room_id (state w))) = Some [ResultsRec fb] \<and>
           fb_T1_avg_score fb = py_round2 (spec_mean xs1) \<and>
           fb_T2_avg_score fb = py_round2 (spec_mean xs2) \<and>
           fb_winner fb = (if spec_mean xs2 < spec_mean xs1 then ''T1''
                           else if spec_mean xs1 < spec_mean xs2 then ''T2'' else ''Tie'') \<and>
           (xs1 = [] \<and> xs2 = [] \<longrightarrow>
              fb_winner fb = ''Tie'' \<and> fb_T1_avg_score fb = 0 \<and> fb_T2_avg_score fb = 0) \<and>
           (xs1 = [25] \<and> xs2 = [27] \<longrightarrow>
              fb_winner fb = ''T2'' \<and> fb_T1_avg_score fb = 25 \<and> fb_T2_avg_score fb = 27)"
proof -
  define fb where "fb = make_feedback (average xs1) (average xs2) (score_history w)"
  have 1: "finalize_scores w =
     (None, (send (FinalResults (fb_winner fb) (fb_T1_avg_score fb) (fb_T2_avg_score fb) fb) None
              (w\<lparr>files := (files w)(results_file (room_id (state w)) \<mapsto> [ResultsRec fb])\<rparr>))
            \<lparr>room_deleted := True\<rparr>)"
    using assms by (simp add: finalize_scores_def Let_def fb_def)
  have 2: "fb_T1_avg_score fb = py_round2 (spec_mean xs1)"
    "fb_T2_avg_score fb = py_round2 (spec_mean xs2)"
    "fb_winner fb = (if spec_mean xs2 < spec_mean xs1 then ''T1''
                           else if spec_mean xs1 < spec_mean xs2 then ''T2'' else ''Tie'')"
    by (simp_all add: fb_def make_feedback_def Let_def spec_mean_average)
  have 3: "py_round2 0 = 0" "py_round2 25 = 25" "py_round2 27 = 27"
    by (simp_all add: py_round2_def round_half_even_def)
  have 4: "xs1 = [] \<and> xs2 = [] \<longrightarrow>
              fb_winner fb = ''Tie'' \<and> fb_T1_avg_score fb = 0 \<and> fb_T2_avg_score fb = 0"
    using 2 3 by (simp add: spec_mean_def)
  have 5: "xs1 = [25] \<and> xs2 = [27] \<longrightarrow>
              fb_winner fb = ''T2'' \<and> fb_T1_avg_score fb = 25 \<and> fb_T2_avg_score fb = 27"
    using 2 3 by (simp add: spec_mean_def)
  define w' where "w' =
     (send (FinalResults (fb_winner fb) (fb_T1_avg_score fb) (fb_T2_avg_score fb) fb) None
              (w\<lparr>files := (files w)(results_file (room_id (state w)) \<mapsto> [ResultsRec fb])\<rparr>))
            \<lparr>room_deleted := True\<rparr>"
  have 6: "sent w' = sent w @ [(FinalResults (fb_winner fb) (fb_T1_avg_score fb)
                                  (fb_T2_avg_score fb) fb, None)]"
    "files w' (results_file (room_id (state w))) = Some [ResultsRec fb]"
    by (simp_all add: w'_def send_def)
  from 1 have 7: "finalize_scores w = (None, w')" by (simp add: w'_def)
  from 7 6 2 4 5 show ?thesis by blast
qed

theorem C7_witness:
  "\<exists>fb w'. finalize_scores
       ((initial_world ''room'' ''multi'')
          \<lparr>state := (state (initial_world ''room'' ''multi''))
                      \<lparr>scores := [''T1'' \<mapsto> [25], ''T2'' \<mapsto> [27]]\<rparr>\<rparr>) = (None, w') \<and>
     last (sent w') = (FinalResults ''T2'' 25 27 fb, None) \<and>
     fb_winner fb = ''T2'' \<and> fb_T1_avg_score fb = 25 \<and> fb_T2_avg_score fb = 27"
proof -
  let ?w = "(initial_world ''room'' ''multi'')
          \<lparr>state := (state (initial_world ''room'' ''multi''))
                      \<lparr>scores := [''T1'' \<mapsto> [25], ''T2'' \<mapsto> [27]]\<rparr>\<rparr>"
  have a: "scores (state ?w) ''T1'' = Some [25]" and b: "scores (state ?w) ''T2'' = Some [27]"
    by simp_all
  from C7_finalize_scores[OF a b] show ?thesis by fastforce
qed

subsection \<open>C8: the round index\<close>



subsection \<open>C9: who is told to speak and to stop\<close>



subsection \<open>C10: the two lists of scores\<close>



end
